theory Spec2Isabelle
  imports Main "HOL-Library.Word"
begin

unbundle bit_operations_syntax

section \<open>The OpenTag native kernel (otkernel/~native/system.c)\<close>

text \<open>
  A shallow embedding of the DASH7 Mode 2 event manager of OpenTag. The C file keeps its
  state in the two globals \<open>sys\<close> and \<open>dll\<close>, in the session stack, in the two byte
  queues \<open>rxq\<close> and \<open>txq\<close> and in the ISF file store; the record \<open>kernel\<close> below holds
  them, and every C function becomes a function from \<open>kernel\<close> to \<open>kernel\<close>.

  The build that is modelled has these compile-time features: ENDPOINT, SUBCONTROLLER or
  GATEWAY, BEACONS, EXTERNAL_EVENT, DATASTREAM, CAPI, SYS_RECEIVE, SYS_FLOOD, SYS_SESSION,
  the three callback tables (SYSKERN, SYSRF, SYSIDLE) and the software watchdog are
  enabled; BLINKER, the three RTC features, RTC_SCHEDULER (its helper
  \<open>sub_activate_scheduler\<close> is defined nowhere), the hardware watchdog (it calls a
  misspelled symbol) and the radio's own RX and TX timers are disabled; no \<open>EXTF_\<close>
  override is defined. Host byte order (\<open>__BIG_ENDIAN__\<close>) and the width of \<open>int\<close>
  stay parameters.
\<close>

subsection \<open>Machine types (OT_types.h)\<close>

text \<open>
  \<open>ot_int\<close> and \<open>ot_long\<close> are signed: their values are read with \<open>sint\<close> and
  compared with \<open>\<le>s\<close> and \<open><s\<close>. Arithmetic wraps around.
\<close>

type_synonym ot_u8   = "8 word"
type_synonym ot_u16  = "16 word"
type_synonym ot_uint = "16 word"
type_synonym ot_int  = "16 word"
type_synonym ot_long = "32 word"

text \<open>The enum \<open>Task_Index\<close>; \<open>sub_clock_tasks\<close> computes \<open>TASK_hold+i\<close> on it.\<close>

type_synonym Task_Index = nat

definition TASK_idle :: Task_Index where "TASK_idle = 0"
definition TASK_processing :: Task_Index where "TASK_processing = 1"
definition TASK_radio :: Task_Index where "TASK_radio = 2"
definition TASK_session :: Task_Index where "TASK_session = 3"
definition TASK_hold :: Task_Index where "TASK_hold = 4"
definition TASK_sleep :: Task_Index where "TASK_sleep = 5"
definition TASK_beacon :: Task_Index where "TASK_beacon = 6"
definition TASK_external :: Task_Index where "TASK_external = 7"
definition TASK_terminus :: Task_Index where "TASK_terminus = 8"

text \<open>
  \<open>IDLE_EVENTS\<close> is the length of \<open>sys.evt.idle[]\<close>, the array view of the events HSS,
  SSS, BTS and EXT (the table \<open>isf_lut\<close> of \<open>sub_next_event\<close> has one entry for each).
\<close>

definition IDLE_EVENTS :: nat where "IDLE_EVENTS = 4"

subsection \<open>Data structures\<close>

text \<open>
  The structures of \<open>sys\<close> and \<open>dll\<close> are declared in system.h and
  native/system_native.h, outside the file verified here. The fields are those the file
  uses, with the types its code implies: an idle-time event counts \<open>nextevent\<close> as an
  \<open>ot_long\<close> (it is clocked by \<open>(ot_long)elapsed\<close> and copied to an \<open>ot_long\<close> eta), its
  cursor is a byte offset into an ISF; the radio event counts \<open>nextevent\<close> as an
  \<open>ot_int\<close> (it is compared with 0 and returned as \<open>ot_uint\<close>); \<open>tc\<close>, \<open>tca\<close> and
  \<open>rx_timeout\<close> of the comm block are \<open>ot_int\<close> (\<open>tca\<close> is tested for \<open>tca >= 0\<close>, and
  all three are exchanged with \<open>ot_int\<close> and \<open>ot_uint\<close> values); the other fields are
  bytes, except the two 16-bit settings of the network configuration.
\<close>

record idletime_event =
  event_no  :: ot_u8
  sched_id  :: ot_u8
  cursor    :: ot_u8
  nextevent :: ot_long

record rfaction_event =
  rfa_event_no  :: ot_u8
  rfa_nextevent :: ot_int

record netconf_struct =
  subnet     :: ot_u8
  b_subnet   :: ot_u8
  dd_flags   :: ot_u8
  b_attempts :: ot_u8
  active     :: ot_u16
  hold_limit :: ot_u16

text \<open>
  A channel list pointer of the comm block: the code points it at one of the two bytes of
  \<open>dll.comm.scratch\<close>; the network layer may point it at memory of its own.
\<close>

datatype chanlist_ptr = Scratch_ptr nat | Foreign_ptr nat

record m2comm_struct =
  tc            :: ot_int
  tca           :: ot_int
  rx_timeout    :: ot_int
  csmaca_params :: ot_u8
  redundants    :: ot_u8
  tx_channels   :: ot_u8
  rx_channels   :: ot_u8
  tx_chanlist   :: chanlist_ptr
  rx_chanlist   :: chanlist_ptr
  scratch       :: "nat \<Rightarrow> ot_u8"

record m2session =
  channel        :: ot_u8
  session_subnet :: ot_u8
  flags          :: ot_u8
  dialog_id      :: ot_u8
  netstate       :: ot_u8
  counter        :: ot_uint

text \<open>
  The session module (session.c) lies outside the file verified here. Its sessions live in
  memory that the kernel reaches through \<open>m2session*\<close> pointers: \<open>heap\<close> maps such a
  pointer to the session it points at. What the module keeps besides (which sessions are
  stacked, and in what order) is its own business: \<open>book\<close>, of a type the kernel never
  looks into.
\<close>

record 'b session_struct =
  heap :: "nat \<Rightarrow> m2session"
  book :: 'b

text \<open>
  A \<open>Queue\<close> (queue.h). \<open>front\<close> is the buffer, read as \<open>front q i\<close> for the C
  \<open>q.front[i]\<close>; the three other pointers are offsets from the start of the buffer.
  Nothing checks a write against \<open>alloc\<close>, in the C as in the model.
\<close>

record Queue =
  alloc     :: ot_u16
  length_q  :: ot_u16
  options   :: ot_u16
  front     :: "nat \<Rightarrow> ot_u8"
  back_q    :: nat
  getcursor :: nat
  putcursor :: nat

text \<open>An open ISF file: its length and its bytes, in the order an external writer stored them.\<close>

record vlFILE =
  length_f :: ot_u16
  data_f   :: "nat \<Rightarrow> ot_u8"

text \<open>
  Calls that leave the kernel: to the radio driver, to the platform, and to the signal
  hooks of the application (\<open>sys.panic\<close>, \<open>sys.evt.RFA.init\<close>,
  \<open>sys.evt.RFA.terminate\<close>, the \<open>prestart\<close> of an idle-time event). The model records
  them, in order, in the field \<open>calls\<close>. A radio callback is a kernel entry point of its
  own, and is never run from inside the call that arms it.
\<close>

datatype ext_call =
    Radio_gag
  | Radio_sleep
  | Rm2_kill
  | Rm2_rxinit_bf ot_u8
  | Rm2_rxinit_ff ot_u8 ot_int
  | Rm2_rxtimeout_isr
  | Rm2_reenter_rx ot_int
  | Rm2_txinit_bf
  | Rm2_txinit_ff ot_int
  | Rm2_txcsma
  | Rm2_prep_resend
  | Platform_ot_preempt
  | Platform_flush_gptim
  | Platform_prand_u16
  | Sig_panic ot_u8
  | Sig_rfainit ot_int
  | Sig_rfaterminate ot_int "ot_int option"
  | Sig_prestart nat

fun is_radio_call :: "ext_call \<Rightarrow> bool" where
  "is_radio_call Radio_gag = True"
| "is_radio_call Radio_sleep = True"
| "is_radio_call Rm2_kill = True"
| "is_radio_call (Rm2_rxinit_bf c) = True"
| "is_radio_call (Rm2_rxinit_ff c n) = True"
| "is_radio_call Rm2_rxtimeout_isr = True"
| "is_radio_call (Rm2_reenter_rx m) = True"
| "is_radio_call Rm2_txinit_bf = True"
| "is_radio_call (Rm2_txinit_ff n) = True"
| "is_radio_call Rm2_txcsma = True"
| "is_radio_call Rm2_prep_resend = True"
| "is_radio_call Platform_ot_preempt = False"
| "is_radio_call Platform_flush_gptim = False"
| "is_radio_call Platform_prand_u16 = False"
| "is_radio_call (Sig_panic c) = False"
| "is_radio_call (Sig_rfainit n) = False"
| "is_radio_call (Sig_rfaterminate n c) = False"
| "is_radio_call (Sig_prestart i) = False"

text \<open>
  The state: \<open>sys\<close> (mutex, watchdog, \<open>sys.evt\<close>), \<open>dll\<close> (idle state, netconf, comm),
  the session module, the two queues, the ISF store and the record of outside calls.
  \<open>sys_evt_idle k i\<close> is \<open>sys.evt.idle[i]\<close>.
\<close>

record 'b kernel =
  sys_mutex          :: ot_u8
  sys_watchdog       :: ot_int
  sys_evt_hold_cycle :: ot_u16
  sys_evt_adv_time   :: ot_int
  sys_evt_RFA        :: rfaction_event
  sys_evt_idle       :: "nat \<Rightarrow> idletime_event"
  dll_idle_state     :: ot_u8
  dll_netconf        :: netconf_struct
  dll_comm           :: m2comm_struct
  session            :: "'b session_struct"
  rxq                :: Queue
  txq                :: Queue
  isf                :: "ot_u8 \<Rightarrow> vlFILE"
  calls              :: "ext_call list"

text \<open>The union of \<open>sys.evt\<close>: HSS, SSS, BTS and EXT are \<open>idle[0]\<close> to \<open>idle[3]\<close>.\<close>

abbreviation HSS :: "'b kernel \<Rightarrow> idletime_event" where "HSS k \<equiv> sys_evt_idle k 0"
abbreviation SSS :: "'b kernel \<Rightarrow> idletime_event" where "SSS k \<equiv> sys_evt_idle k 1"
abbreviation BTS :: "'b kernel \<Rightarrow> idletime_event" where "BTS k \<equiv> sys_evt_idle k 2"
abbreviation EXT :: "'b kernel \<Rightarrow> idletime_event" where "EXT k \<equiv> sys_evt_idle k 3"

text \<open>Undefined behaviour of the C that the model keeps apart from a result.\<close>

datatype fault = Div_by_zero | Null_deref

subsection \<open>Constants of other headers\<close>

text \<open>
  The macros the file uses and does not define, with the two properties of the target
  that the C depends on: the byte order of the host and whether \<open>int\<close> has 16 bits. They
  are parameters of the model: a theorem holds for every value of them.
\<close>

record m2defs =
  BIG_ENDIAN              :: bool
  INT_16BIT               :: bool
  SWDP                    :: ot_int
  SYS_MUTEX_RADIO_LISTEN  :: ot_u8
  SYS_MUTEX_RADIO_DATA    :: ot_u8
  SYS_MUTEX_PROCESSING    :: ot_u8
  M2_NETSTATE_INIT        :: ot_u8
  M2_NETSTATE_REQTX       :: ot_u8
  M2_NETSTATE_REQRX       :: ot_u8
  M2_NETSTATE_RESP        :: ot_u8
  M2_NETSTATE_RESPTX      :: ot_u8
  M2_NETSTATE_RESPRX      :: ot_u8
  M2_NETSTATE_TMASK       :: ot_u8
  M2_NETSTATE_CONNECTED   :: ot_u8
  M2_NETSTATE_ASSOCIATED  :: ot_u8
  M2_NETSTATE_DSDIALOG    :: ot_u8
  M2_NETFLAG_FIRSTRX      :: ot_u8
  M2_NETFLAG_FLOOD        :: ot_u8
  M2_NETFLAG_SCRAP        :: ot_u8
  M2FI_LISTEN             :: ot_u8
  M2_CSMACA_NA2P          :: ot_u8
  M2_CSMACA_A2P           :: ot_u8
  M2_CSMACA_MACCA         :: ot_u8
  M2_CSMACA_NOCSMA        :: ot_u8
  M2_MACIDLE_OFF          :: ot_u8
  M2_MACIDLE_SLEEP        :: ot_u8
  M2_MACIDLE_HOLD         :: ot_u8
  M2_SET_CLASSMASK        :: ot_u16
  M2_SET_SUBCONTROLLER    :: ot_u16
  M2_SET_ENDPOINT         :: ot_u16
  M2_PARAM_BEACON_TCA     :: ot_int
  RM2_ERR_BADCHANNEL      :: ot_int
  RM2_ERR_CCAFAIL         :: ot_int
  ISF_ID_hold_scan_sequence       :: ot_u8
  ISF_ID_sleep_scan_sequence      :: ot_u8
  ISF_ID_beacon_transmit_sequence :: ot_u8

subsection \<open>Functions of other modules\<close>

text \<open>
  The session module. Its functions are parameters; \<open>session_top\<close> and \<open>session_new\<close>
  return pointers into \<open>heap\<close> (\<open>None\<close> is the C \<open>NULL\<close>).
\<close>

record 'b session_ops =
  session_init     :: "'b session_struct \<Rightarrow> 'b session_struct"
  session_flush    :: "'b session_struct \<Rightarrow> 'b session_struct"
  session_pop      :: "'b session_struct \<Rightarrow> 'b session_struct"
  session_drop     :: "'b session_struct \<Rightarrow> 'b session_struct"
  session_refresh  :: "ot_uint \<Rightarrow> 'b session_struct \<Rightarrow> bool \<times> 'b session_struct"
  session_new      :: "ot_uint \<Rightarrow> ot_u8 \<Rightarrow> ot_u8 \<Rightarrow> 'b session_struct \<Rightarrow> nat option \<times> 'b session_struct"
  session_top      :: "'b session_struct \<Rightarrow> nat"
  session_count    :: "'b session_struct \<Rightarrow> ot_int"
  session_netstate :: "'b session_struct \<Rightarrow> ot_u8"

text \<open>
  The other collaborators. A value the radio driver or the platform returns is a function
  of the state at the call (which holds the record of the calls made so far). The network
  and transport layers, the load-app hook and the external event process work on the
  globals of the kernel, so each is a function on the whole state.
\<close>

record 'b extern =
  sops                 :: "'b session_ops"
  radio_rssi           :: "'b kernel \<Rightarrow> ot_int"
  rm2_txcsma           :: "'b kernel \<Rightarrow> ot_int"
  rm2_pkt_duration     :: "ot_int \<Rightarrow> ot_uint"
  rm2_default_tgd      :: "ot_u8 \<Rightarrow> ot_uint"
  phymac0_tg           :: ot_uint
  phymac0_link_qual    :: ot_int
  platform_prand_u16   :: "'b kernel \<Rightarrow> ot_u16"
  platform_get_gptim   :: "'b kernel \<Rightarrow> ot_uint"
  otutils_calc_timeout :: "ot_u8 \<Rightarrow> ot_u16"
  foreign_byte         :: "nat \<Rightarrow> 'b kernel \<Rightarrow> ot_u8"
  q_init               :: "(nat \<Rightarrow> ot_u8) \<Rightarrow> ot_u16 \<Rightarrow> Queue"
  q_writebyte          :: "Queue \<Rightarrow> ot_u8 \<Rightarrow> Queue"
  network_route_ff     :: "nat \<Rightarrow> 'b kernel \<Rightarrow> ot_int \<times> 'b kernel"
  m2np_header          :: "nat \<Rightarrow> ot_u8 \<Rightarrow> ot_u8 \<Rightarrow> 'b kernel \<Rightarrow> 'b kernel"
  m2np_footer          :: "nat \<Rightarrow> 'b kernel \<Rightarrow> 'b kernel"
  m2qp_isf_call        :: "ot_u8 \<Rightarrow> Queue \<Rightarrow> 'b kernel \<Rightarrow> ot_int \<times> 'b kernel"
  m2advp_init_flood    :: "nat \<Rightarrow> ot_u16 \<Rightarrow> 'b kernel \<Rightarrow> ot_int \<times> 'b kernel"
  m2dp_mark_dsframe    :: "nat \<Rightarrow> 'b kernel \<Rightarrow> 'b kernel"
  sys_loadapp          :: "'b kernel \<Rightarrow> bool \<times> 'b kernel"
  sys_extprocess       :: "'b kernel \<Rightarrow> 'b kernel"

subsection \<open>Small helpers for the C that is modelled\<close>

text \<open>An outside call is appended to the record of calls.\<close>

definition call :: "ext_call \<Rightarrow> 'b kernel \<Rightarrow> 'b kernel" where
  "call c k = k\<lparr>calls := calls k @ [c]\<rparr>"

text \<open>\<open>sys.evt.idle[i].field = ...\<close> and \<open>p->field = ...\<close> for a session pointer \<open>p\<close>.\<close>

definition idle_update :: "nat \<Rightarrow> (idletime_event \<Rightarrow> idletime_event) \<Rightarrow> 'b kernel \<Rightarrow> 'b kernel" where
  "idle_update i f k = k\<lparr>sys_evt_idle := (sys_evt_idle k)(i := f (sys_evt_idle k i))\<rparr>"

definition deref :: "'b kernel \<Rightarrow> nat \<Rightarrow> m2session" where
  "deref k p = heap (session k) p"

definition deref_update :: "nat \<Rightarrow> (m2session \<Rightarrow> m2session) \<Rightarrow> 'b kernel \<Rightarrow> 'b kernel" where
  "deref_update p f k =
     k\<lparr>session := (session k)\<lparr>heap := (heap (session k))(p := f (heap (session k) p))\<rparr>\<rparr>"

text \<open>
  The union \<open>Twobytes\<close>: \<open>ubyte big v i\<close> is \<open>scratch.ubyte[i]\<close> when \<open>scratch.ushort\<close>
  is \<open>v\<close>, on a big-endian host (\<open>big\<close>) or a little-endian one.
\<close>

definition ubyte :: "bool \<Rightarrow> ot_u16 \<Rightarrow> nat \<Rightarrow> ot_u8" where
  "ubyte big v i =
     (if big then (if i = 0 then ucast (drop_bit 8 v) else ucast v)
      else (if i = 0 then ucast v else ucast (drop_bit 8 v)))"

text \<open>\<open>(x << 8) | (x >> 8)\<close> on an \<open>ot_u16\<close>.\<close>

definition swap16 :: "ot_u16 \<Rightarrow> ot_u16" where
  "swap16 x = push_bit 8 x OR drop_bit 8 x"

text \<open>
  Modelled from the spec: veelite's \<open>ISF_open_su\<close>, \<open>vl_read\<close> and \<open>vl_close\<close> are
  defined outside the file verified here. An ISF holds the bytes an external writer stored ("ISF 0: network
  settings. Offsets: ... 8 {hold_limit, u16, BE}"), and \<open>vl_read(fp, offset)\<close> returns the
  two bytes at \<open>offset\<close> as one \<open>ot_u16\<close> of the host: the callers take
  \<open>scratch.ubyte[0]\<close> for the first byte of a field ("2 bytes {channel, flags}"), and
  swap the halves of a big-endian field unless \<open>__BIG_ENDIAN__\<close> is defined. Opening
  always gives a file (the code asserts nothing), closing does nothing the kernel sees.
\<close>

definition ISF_open_su :: "ot_u8 \<Rightarrow> 'b kernel \<Rightarrow> vlFILE" where
  "ISF_open_su file_id k = isf k file_id"

definition vl_read :: "bool \<Rightarrow> vlFILE \<Rightarrow> nat \<Rightarrow> ot_u16" where
  "vl_read big fp offset =
     (if big then push_bit 8 (ucast (data_f fp offset)) OR ucast (data_f fp (offset + 1))
      else push_bit 8 (ucast (data_f fp (offset + 1))) OR ucast (data_f fp offset))"

text \<open>
  The two bytes \<open>hi\<close>, \<open>lo\<close> that a big-endian writer stores for a 16-bit value, and a
  file that holds them at an offset.
\<close>

definition be_bytes :: "ot_u16 \<Rightarrow> ot_u8 \<times> ot_u8" where
  "be_bytes v = (ucast (drop_bit 8 v), ucast v)"

definition be_written :: "vlFILE \<Rightarrow> nat \<Rightarrow> ot_u16 \<Rightarrow> bool" where
  "be_written fp offset v \<longleftrightarrow>
     data_f fp offset = fst (be_bytes v) \<and> data_f fp (offset + 1) = snd (be_bytes v)"

text \<open>
  \<open>random % divisor\<close> for an \<open>ot_u16 random\<close> and an \<open>ot_int divisor\<close> that is not 0.
  With a 16-bit \<open>int\<close> both operands become \<open>unsigned int\<close>; with a wider \<open>int\<close> both
  become \<open>int\<close>, and the remainder of a non-negative dividend is taken by the magnitude
  of the divisor.
\<close>

definition c_rem_u16_int :: "bool \<Rightarrow> ot_u16 \<Rightarrow> ot_int \<Rightarrow> ot_u16" where
  "c_rem_u16_int int16 random divisor =
     (if int16 then random mod divisor
      else word_of_int (uint random mod \<bar>sint divisor\<bar>))"

subsection \<open>The MAC filter\<close>

text \<open>\<open>sub_mac_filter\<close>: link budget and subnet. \<open>linkloss\<close> is an \<open>ot_int\<close>.\<close>

definition linkloss :: "'b extern \<Rightarrow> 'b kernel \<Rightarrow> ot_int" where
  "linkloss e k = (ucast (drop_bit 1 (front (rxq k) 1) AND 0x3F) - 40) - radio_rssi e k"

definition sub_mac_filter :: "'b extern \<Rightarrow> 'b kernel \<Rightarrow> bool" where
  "sub_mac_filter e k =
     (let qualifier = (linkloss e k \<le>s phymac0_link_qual e);
          fr_subnet = front (rxq k) 2;
          dsm       = subnet (dll_netconf k) AND 0x0F;
          mask      = fr_subnet AND dsm;
          specifier = (fr_subnet XOR subnet (dll_netconf k)) AND 0xF0;
          fr_subnet = fr_subnet AND 0xF0
      in qualifier \<and> ((fr_subnet = 0xF0 \<or> specifier = 0) \<and> mask = dsm))"

subsection \<open>Flow and congestion control\<close>

text \<open>
  \<open>sub_rigd_newslot\<close>. When the halved \<open>tc\<close> is 0 the C divides by zero: the model
  returns the fault.
\<close>

definition sub_rigd_newslot :: "m2defs \<Rightarrow> 'b extern \<Rightarrow> 'b kernel \<Rightarrow> fault + (ot_uint \<times> 'b kernel)" where
  "sub_rigd_newslot d e k =
     (let random = platform_prand_u16 e k;
          k1 = call Platform_prand_u16 k;
          k2 = dll_comm_update (tc_update (\<lambda>t. signed_drop_bit 1 t)) k1;
          k3 = dll_comm_update (tca_update (\<lambda>_. tc (dll_comm k2))) k2
      in if tc (dll_comm k3) = 0 then Inl Div_by_zero
         else Inr (c_rem_u16_int (INT_16BIT d) random (tc (dll_comm k3)), k3))"

text \<open>
  \<open>sub_rigd_nextslot\<close>: \<open>tc - tca\<close> is computed in \<open>int\<close> and widened to \<open>ot_long\<close>.
\<close>

definition sub_rigd_nextslot :: "m2defs \<Rightarrow> 'b kernel \<Rightarrow> ot_uint" where
  "sub_rigd_nextslot d k =
     (if INT_16BIT d
      then (let wait = tc (dll_comm k) - tca (dll_comm k) in if wait <s 0 then 0 else wait)
      else (let wait = sint (tc (dll_comm k)) - sint (tca (dll_comm k))
            in if wait < 0 then 0 else word_of_int wait))"

definition sub_aind_nextslot :: "'b extern \<Rightarrow> 'b kernel \<Rightarrow> ot_uint" where
  "sub_aind_nextslot e k = rm2_pkt_duration e (ucast (front (txq k) 0))"

text \<open>
  \<open>sub_fcinit\<close>. In the RAIND case the divisor is \<open>tca - rm2_pkt_duration(...)\<close>, an
  \<open>unsigned int\<close> when \<open>int\<close> has 16 bits and an \<open>int\<close> otherwise.
\<close>

definition sub_fcinit :: "m2defs \<Rightarrow> 'b extern \<Rightarrow> 'b kernel \<Rightarrow> fault + (ot_uint \<times> 'b kernel)" where
  "sub_fcinit d e k =
     (let sel = drop_bit 3 (csmaca_params (dll_comm k)) AND 0x03 in
      if sel = 0 then sub_rigd_newslot d e k
      else if sel = 1 then
        (let random = platform_prand_u16 e k;
             k1 = call Platform_prand_u16 k;
             dur = rm2_pkt_duration e (ucast (front (txq k1) 0))
         in if INT_16BIT d
            then (if tca (dll_comm k1) - dur = 0 then Inl Div_by_zero
                  else Inr (random mod (tca (dll_comm k1) - dur), k1))
            else (if sint (tca (dll_comm k1)) - uint dur = 0 then Inl Div_by_zero
                  else Inr (word_of_int (uint random mod \<bar>sint (tca (dll_comm k1)) - uint dur\<bar>), k1)))
      else Inr (0, k))"

text \<open>
  \<open>sub_fcloop\<close>. In the RIGD case the two calls of the sum are made from left to right.
\<close>

definition sub_fcloop :: "m2defs \<Rightarrow> 'b extern \<Rightarrow> 'b kernel \<Rightarrow> fault + (ot_uint \<times> 'b kernel)" where
  "sub_fcloop d e k =
     (let sel = drop_bit 3 (csmaca_params (dll_comm k)) AND 3 in
      if sel = 0 then
        (let next = sub_rigd_nextslot d k in
         case sub_rigd_newslot d e k of
           Inl f \<Rightarrow> Inl f
         | Inr (new, k1) \<Rightarrow> Inr (next + new, k1))
      else if sel = 1 \<or> sel = 2 then Inr (sub_aind_nextslot e k, k)
      else Inr (phymac0_tg e, k))"

text \<open>\<open>sub_fceval\<close> is empty.\<close>

definition sub_fceval :: "ot_int \<Rightarrow> 'b kernel \<Rightarrow> 'b kernel" where
  "sub_fceval query_score k = k"

subsection \<open>Clocking the tasks\<close>

text \<open>
  The loop of \<open>sub_clock_tasks\<close>, \<open>for (i=(IDLE_EVENTS-1); i>=0; i--)\<close>:
  \<open>clock_idle n\<close> runs it for \<open>i = n-1\<close> down to \<open>0\<close>.
\<close>

fun clock_idle :: "nat \<Rightarrow> ot_uint \<Rightarrow> 'b kernel \<times> Task_Index \<Rightarrow> 'b kernel \<times> Task_Index" where
  "clock_idle 0 elapsed (k, output) = (k, output)"
| "clock_idle (Suc i) elapsed (k, output) =
     (let k1 = idle_update i (nextevent_update (\<lambda>t. t - ucast elapsed)) k;
          output1 = (if event_no (sys_evt_idle k1 i) \<noteq> 0 \<and> nextevent (sys_evt_idle k1 i) \<le>s 0
                     then TASK_hold + i else output)
      in clock_idle i elapsed (k1, output1))"

definition sub_clock_tasks :: "m2defs \<Rightarrow> 'b extern \<Rightarrow> ot_uint \<Rightarrow> 'b kernel \<Rightarrow> Task_Index \<times> 'b kernel" where
  "sub_clock_tasks d e elapsed k =
     (let output = TASK_idle;
          k1 = dll_comm_update (tca_update (\<lambda>t. t - elapsed)) k;
          (k2, output) = clock_idle IDLE_EVENTS elapsed (k1, output);
          (ready, s) = session_refresh (sops e) elapsed (session k2);
          k3 = k2\<lparr>session := s\<rparr>;
          output = (if ready then TASK_session else output);
          (k4, output) =
            (if rfa_event_no (sys_evt_RFA k3) \<noteq> 0
             then (sys_evt_RFA_update (rfa_nextevent_update (\<lambda>t. t - elapsed)) k3, TASK_radio)
             else (k3, output));
          output = (if sys_mutex k4 AND SYS_MUTEX_PROCESSING d \<noteq> 0 then TASK_processing else output)
      in (output, k4))"

subsection \<open>Idle states\<close>

definition sys_goto_off :: "'b extern \<Rightarrow> 'b kernel \<Rightarrow> 'b kernel" where
  "sys_goto_off e k =
     (let k1 = k\<lparr>session := session_init (sops e) (session k)\<rparr>;
          k2 = sys_evt_RFA_update (rfa_event_no_update (\<lambda>_. 0)) k1;
          k3 = idle_update 0 (event_no_update (\<lambda>_. 0)) k2;
          k4 = idle_update 1 (event_no_update (\<lambda>_. 0)) k3
      in idle_update 2 (event_no_update (\<lambda>_. 0)) k4)"

definition sys_goto_sleep :: "'b kernel \<Rightarrow> 'b kernel" where
  "sys_goto_sleep k =
     (let k1 = idle_update 1 (cursor_update (\<lambda>_. 0)) k;
          k2 = idle_update 1 (event_no_update (\<lambda>_. 1)) k1;
          k3 = idle_update 0 (event_no_update (\<lambda>_. 0)) k2
      in sys_evt_RFA_update (rfa_event_no_update (\<lambda>_. 0)) k3)"

definition sys_goto_hold :: "'b kernel \<Rightarrow> 'b kernel" where
  "sys_goto_hold k =
     (let k1 = idle_update 0 (event_no_update (\<lambda>_. 1)) k;
          k2 = idle_update 1 (event_no_update (\<lambda>_. 0)) k1
      in sys_evt_RFA_update (rfa_event_no_update (\<lambda>_. 0)) k2)"

text \<open>\<open>sys_idle\<close>; its call table is \<open>{off, sleep, hold, hold}\<close>.\<close>

definition sys_idle :: "'b extern \<Rightarrow> 'b kernel \<Rightarrow> 'b kernel" where
  "sys_idle e k =
     (let k1 = call Radio_gag k;
          k2 = call Radio_sleep k1;
          k3 = k2\<lparr>sys_mutex := 0\<rparr>;
          sel = dll_idle_state k3 AND 3
      in if sel = 0 then sys_goto_off e k3
         else if sel = 1 then sys_goto_sleep k3
         else sys_goto_hold k3)"

definition sys_panic :: "'b extern \<Rightarrow> ot_u8 \<Rightarrow> 'b kernel \<Rightarrow> 'b kernel" where
  "sys_panic e err_code k =
     (let k1 = k\<lparr>dll_idle_state := 0\<rparr>;
          k2 = k1\<lparr>session := session_flush (sops e) (session k1)\<rparr>;
          k3 = sys_idle e k2;
          k4 = call Platform_flush_gptim k3
      in call (Sig_panic err_code) k4)"

definition sub_default_idle :: "m2defs \<Rightarrow> 'b kernel \<Rightarrow> ot_u8" where
  "sub_default_idle d k =
     (let active_setting = active (dll_netconf k) AND M2_SET_CLASSMASK d in
      if active_setting \<ge> M2_SET_SUBCONTROLLER d then M2_MACIDLE_HOLD d
      else if active_setting AND M2_SET_ENDPOINT d \<noteq> 0 then M2_MACIDLE_SLEEP d
      else M2_MACIDLE_OFF d)"

definition sub_sys_flush :: "m2defs \<Rightarrow> 'b extern \<Rightarrow> 'b kernel \<Rightarrow> 'b kernel" where
  "sub_sys_flush d e k =
     (let k1 = k\<lparr>session := session_init (sops e) (session k)\<rparr>;
          k2 = k1\<lparr>dll_idle_state := sub_default_idle d k1\<rparr>;
          k3 = idle_update 1 (cursor_update (\<lambda>_. 0)) k2;
          k4 = idle_update 1 (nextevent_update (\<lambda>_. 0)) k3;
          k5 = idle_update 0 (cursor_update (\<lambda>_. 0)) k4;
          k6 = idle_update 0 (nextevent_update (\<lambda>_. 0)) k5;
          k7 = idle_update 2 (cursor_update (\<lambda>_. 0)) k6;
          k8 = idle_update 2 (event_no_update (\<lambda>_. if b_attempts (dll_netconf k7) \<noteq> 0 then 1 else 0)) k7;
          k9 = idle_update 2 (nextevent_update (\<lambda>_. 0)) k8
      in sys_idle e k9)"

text \<open>\<open>sys_refresh\<close> loads \<open>dll.netconf\<close> from ISF 0.\<close>

definition sys_refresh :: "m2defs \<Rightarrow> 'b extern \<Rightarrow> 'b kernel \<Rightarrow> 'b kernel" where
  "sys_refresh d e k =
     (let big = BIG_ENDIAN d;
          fp = ISF_open_su 0x00 k;
          scratch1 = vl_read big fp 2;
          k1 = dll_netconf_update (subnet_update (\<lambda>_. ubyte big scratch1 0)) k;
          k2 = dll_netconf_update (b_subnet_update (\<lambda>_. ubyte big scratch1 1)) k1;
          scratch2 = vl_read big fp 6;
          k3 = dll_netconf_update (dd_flags_update (\<lambda>_. ubyte big scratch2 0)) k2;
          k4 = dll_netconf_update (b_attempts_update (\<lambda>_. ubyte big scratch2 1)) k3;
          k5 = dll_netconf_update (active_update (\<lambda>_. vl_read big fp 4)) k4;
          k6 = dll_netconf_update (hold_limit_update (\<lambda>_. vl_read big fp 8)) k5
      in sub_sys_flush d e k6)"

definition sys_default_csma :: "ot_u8 \<Rightarrow> ot_u8" where
  "sys_default_csma chan_id =
     (let chan_id = chan_id AND 0x30 in if chan_id = 0x00 \<or> chan_id = 0x30 then 4 else 0)"

subsection \<open>Idle-time events\<close>

text \<open>
  \<open>sub_scan_channel(&sys.evt.idle[i], SS_ISF)\<close>. The result of \<open>session_new\<close> is not
  looked at.
\<close>

definition sub_scan_channel :: "m2defs \<Rightarrow> 'b extern \<Rightarrow> nat \<Rightarrow> ot_u8 \<Rightarrow> 'b kernel \<Rightarrow> 'b kernel" where
  "sub_scan_channel d e i SS_ISF k =
     (let big = BIG_ENDIAN d;
          k1 = call (Sig_prestart i) k;
          fp = ISF_open_su SS_ISF k1;
          scratch1 = vl_read big fp (unat (cursor (sys_evt_idle k1 i)));
          s_channel = ubyte big scratch1 0;
          s_flags = ubyte big scratch1 1;
          k2 = idle_update i (cursor_update (\<lambda>c. c + 2)) k1;
          scratch2 = vl_read big fp (unat (cursor (sys_evt_idle k2 i)));
          k3 = idle_update i (nextevent_update
                 (\<lambda>_. if big then ucast scratch2 else ucast (swap16 scratch2))) k2;
          k4 = idle_update i (cursor_update (\<lambda>c. c + 2)) k3;
          k5 = (if unat (cursor (sys_evt_idle k4 i)) \<ge> unat (length_f fp)
                then idle_update i (cursor_update (\<lambda>_. 0)) k4 else k4);
          k6 = dll_comm_update (rx_timeout_update (\<lambda>_. otutils_calc_timeout e s_flags)) k5;
          k7 = dll_comm_update (redundants_update (\<lambda>_. 0)) k6;
          k8 = dll_comm_update (rx_channels_update (\<lambda>_. 1)) k7;
          k9 = dll_comm_update (rx_chanlist_update (\<lambda>_. Scratch_ptr 1)) k8;
          k10 = dll_comm_update (scratch_update (\<lambda>m. m(1 := s_channel))) k9;
          s_flags = (if s_flags AND 0x80 \<noteq> 0
                     then M2_NETSTATE_REQRX d OR M2_NETSTATE_INIT d OR M2_NETFLAG_FLOOD d
                     else M2_NETSTATE_REQRX d OR M2_NETSTATE_INIT d)
      in k10\<lparr>session := snd (session_new (sops e) 0 s_flags s_channel (session k10))\<rparr>)"

definition sysevt_holdscan :: "m2defs \<Rightarrow> 'b extern \<Rightarrow> 'b kernel \<Rightarrow> 'b kernel" where
  "sysevt_holdscan d e k = sub_scan_channel d e 0 (ISF_ID_hold_scan_sequence d) k"

definition sysevt_sleepscan :: "m2defs \<Rightarrow> 'b extern \<Rightarrow> 'b kernel \<Rightarrow> 'b kernel" where
  "sysevt_sleepscan d e k = sub_scan_channel d e 1 (ISF_ID_sleep_scan_sequence d) k"

text \<open>
  The four bytes of \<open>bq_data\<close> in \<open>sysevt_beacon\<close>, once its two halves are loaded.
\<close>

definition bq_data :: "bool \<Rightarrow> ot_u16 \<Rightarrow> ot_u16 \<Rightarrow> nat \<Rightarrow> ot_u8" where
  "bq_data big ushort0 ushort1 i =
     (if i < 2 then ubyte big ushort0 i else ubyte big ushort1 (i - 2))"

text \<open>
  \<open>sysevt_beacon\<close>. \<open>beacon_queue\<close> is set up over \<open>bq_data\<close> before the two halves are
  loaded; the model hands \<open>q_init\<close> the loaded buffer, which is what \<open>m2qp_isf_call\<close>
  reads. A \<open>NULL\<close> from \<open>session_new\<close> would be written through: the fault.
\<close>

definition sysevt_beacon :: "m2defs \<Rightarrow> 'b extern \<Rightarrow> 'b kernel \<Rightarrow> fault + 'b kernel" where
  "sysevt_beacon d e k =
     (let big = BIG_ENDIAN d;
          fp = ISF_open_su (ISF_ID_beacon_transmit_sequence d) k
      in if b_attempts (dll_netconf k) = 0 \<or> length_f fp = 0
         then Inr (idle_update 2 (nextevent_update (\<lambda>_. 65535)) k)
         else
          (let scratch1 = vl_read big fp (unat (cursor (BTS k)));
               (session_p, s) = session_new (sops e) 0
                                  (M2_NETSTATE_INIT d OR M2_NETFLAG_FIRSTRX d)
                                  (ubyte big scratch1 0) (session k);
               k1 = k\<lparr>session := s\<rparr>
           in case session_p of
                None \<Rightarrow> Inl Null_deref
              | Some p \<Rightarrow>
                 (let k2 = deref_update p (session_subnet_update (\<lambda>_. b_subnet (dll_netconf k1))) k1;
                      beacon_params = ubyte big scratch1 1;
                      k3 = deref_update p (flags_update (\<lambda>_. dd_flags (dll_netconf k2) AND NOT 0x30)) k2;
                      k4 = deref_update p (flags_update (\<lambda>f. f OR (beacon_params AND 0x30))) k3;
                      k5 = idle_update 2 (cursor_update (\<lambda>c. c + 2)) k4;
                      ushort0 = vl_read big fp (unat (cursor (BTS k5)));
                      k6 = idle_update 2 (cursor_update (\<lambda>c. c + 2)) k5;
                      ushort1 = vl_read big fp (unat (cursor (BTS k6)));
                      beacon_queue = q_init e (bq_data big ushort0 ushort1) 4;
                      k7 = idle_update 2 (cursor_update (\<lambda>c. c + 2)) k6;
                      scratch2 = vl_read big fp (unat (cursor (BTS k7)));
                      k8 = idle_update 2 (nextevent_update
                             (\<lambda>_. if big then ucast scratch2 else ucast (swap16 scratch2))) k7;
                      k9 = idle_update 2 (cursor_update (\<lambda>c. c + 2)) k8;
                      k10 = (if unat (cursor (BTS k9)) \<ge> unat (length_f fp)
                             then idle_update 2 (cursor_update (\<lambda>_. 0)) k9 else k9);
                      k11 = m2np_header e p 0x40 0 k10;
                      k12 = k11\<lparr>txq := q_writebyte e (txq k11) (0x20 + (beacon_params AND 1))\<rparr>;
                      increment = (if beacon_params AND 0x04 \<noteq> 0 then 1 else 0);
                      k13 = txq_update (\<lambda>q. q\<lparr>front := (front q)(putcursor q := beacon_params AND 0x04)\<rparr>) k12;
                      k14 = txq_update (putcursor_update (\<lambda>c. c + increment)) k13;
                      k15 = txq_update (length_q_update (\<lambda>l. l + of_nat increment)) k14;
                      k16 = dll_comm_update (tc_update (\<lambda>_. M2_PARAM_BEACON_TCA d)) k15;
                      k17 = dll_comm_update (rx_timeout_update
                              (\<lambda>_. if beacon_params AND 0x02 \<noteq> 0 then 0
                                   else rm2_default_tgd e (channel (deref k16 p)))) k16;
                      k18 = k17\<lparr>txq := q_writebyte e (txq k17) (ucast (rx_timeout (dll_comm k17)))\<rparr>;
                      k19 = dll_comm_update (csmaca_params_update
                              (\<lambda>_. sys_default_csma (channel (deref k18 p)))) k18;
                      k20 = dll_comm_update (csmaca_params_update (\<lambda>c. c OR (beacon_params AND 0x04))) k19;
                      k21 = dll_comm_update (csmaca_params_update
                              (\<lambda>c. c OR (M2_CSMACA_NA2P d OR M2_CSMACA_MACCA d))) k20;
                      k22 = dll_comm_update (redundants_update (\<lambda>_. b_attempts (dll_netconf k21))) k21;
                      k23 = dll_comm_update (tx_channels_update (\<lambda>_. 1)) k22;
                      k24 = dll_comm_update (rx_channels_update (\<lambda>_. 1)) k23;
                      k25 = dll_comm_update (tx_chanlist_update (\<lambda>_. Scratch_ptr 0)) k24;
                      k26 = dll_comm_update (rx_chanlist_update (\<lambda>_. Scratch_ptr 1)) k25;
                      k27 = dll_comm_update (scratch_update (\<lambda>m. m(0 := channel (deref k26 p)))) k26;
                      k28 = dll_comm_update (scratch_update (\<lambda>m. m(1 := channel (deref k27 p)))) k27;
                      (code, k29) = m2qp_isf_call e (beacon_params AND 1) beacon_queue k28
                  in if 0 \<le>s code
                     then Inr (call (Sig_prestart 2) (m2np_footer e p k29))
                     else Inr (k29\<lparr>session := session_pop (sops e) (session k29)\<rparr>))))"

subsection \<open>Radio I/O events\<close>

text \<open>\<open>p[0]\<close> for a channel list pointer \<open>p\<close>.\<close>

definition chanlist0 :: "'b extern \<Rightarrow> 'b kernel \<Rightarrow> chanlist_ptr \<Rightarrow> ot_u8" where
  "chanlist0 e k p =
     (case p of Scratch_ptr j \<Rightarrow> scratch (dll_comm k) j | Foreign_ptr a \<Rightarrow> foreign_byte e a k)"

definition sysevt_receive :: "m2defs \<Rightarrow> 'b kernel \<Rightarrow> 'b kernel" where
  "sysevt_receive d k =
     (if sys_mutex k AND SYS_MUTEX_RADIO_DATA d = 0
         \<or> csmaca_params (dll_comm k) AND M2_CSMACA_A2P d \<noteq> 0
      then call Rm2_rxtimeout_isr k else k)"

definition sysevt_bscan :: "m2defs \<Rightarrow> 'b extern \<Rightarrow> 'b kernel \<Rightarrow> 'b kernel" where
  "sysevt_bscan d e k =
     (let k1 = call (Sig_rfainit 1) k;
          k2 = sys_evt_RFA_update (rfa_event_no_update (\<lambda>_. 1)) k1;
          k3 = sys_evt_RFA_update (rfa_nextevent_update (\<lambda>_. rx_timeout (dll_comm k2))) k2;
          k4 = k3\<lparr>sys_mutex := SYS_MUTEX_RADIO_LISTEN d\<rparr>
      in call (Rm2_rxinit_bf (chanlist0 e k4 (rx_chanlist (dll_comm k4)))) k4)"

definition sysevt_fscan :: "m2defs \<Rightarrow> 'b extern \<Rightarrow> 'b kernel \<Rightarrow> 'b kernel" where
  "sysevt_fscan d e k =
     (let k1 = call (Sig_rfainit 2) k;
          k2 = k1\<lparr>sys_mutex := SYS_MUTEX_RADIO_LISTEN d\<rparr>;
          k3 = sys_evt_RFA_update (rfa_nextevent_update (\<lambda>_. rx_timeout (dll_comm k2))) k2;
          k4 = sys_evt_RFA_update (rfa_event_no_update (\<lambda>_. 2)) k3;
          session_p = session_top (sops e) (session k4)
      in call (Rm2_rxinit_ff (channel (deref k4 session_p)) 0) k4)"

definition sysevt_initbtx :: "m2defs \<Rightarrow> 'b kernel \<Rightarrow> 'b kernel" where
  "sysevt_initbtx d k =
     (let k1 = sys_evt_RFA_update (rfa_event_no_update (\<lambda>_. 3)) k;
          k2 = call (Sig_rfainit 3) k1;
          k3 = call Rm2_txinit_bf k2;
          k4 = k3\<lparr>sys_mutex := SYS_MUTEX_RADIO_LISTEN d\<rparr>;
          k5 = sys_evt_RFA_update (rfa_nextevent_update (\<lambda>_. 0)) k4
      in dll_comm_update (tca_update (\<lambda>_. tc (dll_comm k5))) k5)"

definition sysevt_initftx :: "m2defs \<Rightarrow> 'b extern \<Rightarrow> 'b kernel \<Rightarrow> fault + 'b kernel" where
  "sysevt_initftx d e k =
     (let k1 = sys_evt_RFA_update (rfa_event_no_update (\<lambda>_. 4)) k;
          k2 = call (Sig_rfainit 4) k1;
          k3 = call (Rm2_txinit_ff 0) k2;
          k4 = k3\<lparr>sys_mutex := SYS_MUTEX_RADIO_LISTEN d\<rparr>
      in case sub_fcinit d e k4 of
           Inl f \<Rightarrow> Inl f
         | Inr (offset, k5) \<Rightarrow>
            (let k6 = sys_evt_RFA_update (rfa_nextevent_update (\<lambda>_. offset)) k5
             in Inr (dll_comm_update (tca_update (\<lambda>_. tc (dll_comm k6))) k6)))"

text \<open>
  \<open>sysevt_txcsma\<close>. The \<open>switch\<close> on \<open>csma_code\<close> is read in the order of its labels;
  the label \<open>sysevt_txcsma_fail\<close> is the function \<open>sysevt_txcsma_fail\<close>.
\<close>

definition sysevt_txcsma_fail :: "'b extern \<Rightarrow> ot_int \<Rightarrow> 'b kernel \<Rightarrow> 'b kernel" where
  "sysevt_txcsma_fail e csma_code k =
     (let k1 = call (Sig_rfaterminate 3 (Some csma_code)) k;
          k2 = k1\<lparr>session := session_pop (sops e) (session k1)\<rparr>
      in sys_idle e k2)"

definition sysevt_txcsma :: "m2defs \<Rightarrow> 'b extern \<Rightarrow> 'b kernel \<Rightarrow> fault + 'b kernel" where
  "sysevt_txcsma d e k =
     (let csma_code = - 1 in
      if 0 \<le>s tca (dll_comm k) then
        (let csma_code = rm2_txcsma e k;
             k1 = call Rm2_txcsma k
         in if csma_code = RM2_ERR_BADCHANNEL d then Inr (sysevt_txcsma_fail e csma_code k1)
            else if csma_code = RM2_ERR_CCAFAIL d then
              (case sub_fcloop d e k1 of
                 Inl f \<Rightarrow> Inl f
               | Inr (offset, k2) \<Rightarrow> Inr (sys_evt_RFA_update (rfa_nextevent_update (\<lambda>_. offset)) k2))
            else if csma_code = - 1 then
              (let k2 = k1\<lparr>sys_mutex := SYS_MUTEX_RADIO_DATA d\<rparr>;
                   k3 = sys_evt_RFA_update (rfa_event_no_update (\<lambda>n. n + 2)) k2
               in Inr (sys_evt_RFA_update (rfa_nextevent_update
                         (\<lambda>_. if rfa_event_no (sys_evt_RFA k3) = 5 then sys_evt_adv_time k3
                              else rm2_pkt_duration e (length_q (txq k3)))) k3))
            else Inr (sys_evt_RFA_update (rfa_nextevent_update (\<lambda>_. csma_code)) k1))
      else Inr (sysevt_txcsma_fail e csma_code k))"

subsection \<open>Radio callbacks\<close>

text \<open>
  \<open>rfevt_frx\<close>. \<open>frx_code\<close> has no value until the branch for \<open>pcode \<ge> 0\<close> gives it
  one; the terminate signal is recorded with \<open>None\<close> when it is passed unset.
\<close>

definition rfevt_frx :: "m2defs \<Rightarrow> 'b extern \<Rightarrow> ot_int \<Rightarrow> ot_int \<Rightarrow> 'b kernel \<Rightarrow> 'b kernel" where
  "rfevt_frx d e pcode fcode k =
     (let session_p = session_top (sops e) (session k);
          (frx_code, pcode, k1) =
            (if pcode <s 0 then
               (let k1 = sys_evt_RFA_update (rfa_event_no_update (\<lambda>_. 0)) k;
                    k2 = (if redundants (dll_comm k1) \<noteq> 0
                          then deref_update session_p (netstate_update
                                 (\<lambda>_. M2_NETSTATE_REQTX d OR M2_NETSTATE_INIT d OR M2_NETFLAG_FIRSTRX d)) k1
                          else if csmaca_params (dll_comm k1) AND M2_CSMACA_A2P d \<noteq> 0
                          then deref_update session_p (netstate_update (\<lambda>n. n XOR 0x30)) k1
                          else deref_update session_p (netstate_update (\<lambda>_. M2_NETFLAG_SCRAP d)) k1)
                in (None, pcode, k2))
             else
               (let frx_code = 0;
                    (frx_code, k1) =
                      (if fcode \<noteq> 0
                       then (- 1, if netstate (deref k session_p) AND M2_NETSTATE_DSDIALOG d \<noteq> 0
                                  then m2dp_mark_dsframe e session_p k else k)
                       else if \<not> sub_mac_filter e k then (- 4, k)
                       else (frx_code, k))
                in if pcode = 0 then
                     (let fcode = (ucast (netstate (deref k1 session_p) AND M2_NETSTATE_RESP d) :: ot_int);
                          k2 = (if frx_code = 0
                                then k1\<lparr>sys_mutex := sys_mutex k1 OR SYS_MUTEX_PROCESSING d\<rparr>
                                else k1)
                      in if frx_code OR fcode \<noteq> 0
                         then (Some frx_code, frx_code, call (Rm2_reenter_rx 0) k2)
                         else if fcode = 0
                         then (Some frx_code, pcode,
                               call Radio_sleep (sys_evt_RFA_update (rfa_event_no_update (\<lambda>_. 0)) k2))
                         else (Some frx_code, pcode, k2))
                   else (Some frx_code, pcode, k1)));
          k2 = (if rfa_event_no (sys_evt_RFA k1) = 0
                then call (Sig_rfaterminate 2 frx_code) k1 else k1)
      in if pcode = 0 then call Platform_ot_preempt k2 else k2)"


subsection \<open>The application interface\<close>

definition otapi_start_dialog :: "'b kernel \<Rightarrow> ot_u16 \<times> 'b kernel" where
  "otapi_start_dialog k =
     (let k1 = (if sys_mutex k \<noteq> 0 then call Rm2_kill (k\<lparr>sys_mutex := 0\<rparr>) else k)
      in (1, call Platform_ot_preempt k1))"

subsection \<open>The event manager\<close>

text \<open>The software watchdog.\<close>

definition SYS_WATCHDOG_RUN :: "'b kernel \<Rightarrow> 'b kernel" where
  "SYS_WATCHDOG_RUN k = k\<lparr>sys_watchdog := sys_watchdog k - 1\<rparr>"

definition SYS_WATCHDOG_RESET :: "m2defs \<Rightarrow> 'b kernel \<Rightarrow> 'b kernel" where
  "SYS_WATCHDOG_RESET d k = k\<lparr>sys_watchdog := SWDP d\<rparr>"

definition SYS_WATCHDOG_CHECK :: "'b kernel \<Rightarrow> 'b kernel" where
  "SYS_WATCHDOG_CHECK k = (if sys_watchdog k \<le>s 0 then call Rm2_kill k else k)"

text \<open>
  \<open>sub_idlevt_ctrl\<close> without the RTC scheduler, and the loop of \<open>sub_next_event\<close>
  (\<open>next_event_loop n\<close> runs it for \<open>i = n-1\<close> down to \<open>0\<close>).
\<close>

definition sub_idlevt_ctrl :: "idletime_event \<Rightarrow> ot_long \<Rightarrow> ot_long" where
  "sub_idlevt_ctrl idlevt eta = (if nextevent idlevt <s eta then nextevent idlevt else eta)"

fun next_event_loop :: "nat \<Rightarrow> 'b kernel \<Rightarrow> ot_long \<Rightarrow> ot_long" where
  "next_event_loop 0 k eta = eta"
| "next_event_loop (Suc i) k eta =
     next_event_loop i k
       (if event_no (sys_evt_idle k i) \<noteq> 0 then sub_idlevt_ctrl (sys_evt_idle k i) eta else eta)"

definition sub_next_event :: "'b kernel \<Rightarrow> ot_long" where
  "sub_next_event k = next_event_loop IDLE_EVENTS k 65535"

text \<open>
  The cases of the \<open>switch\<close> in \<open>sys_event_manager\<close>. A case that can return gives
  \<open>Some v\<close> where the C executes \<open>return v\<close>, and \<open>None\<close> where it leaves the \<open>switch\<close>
  by \<open>break\<close>; a case that always leaves by \<open>break\<close> gives the state alone. The external
  event process (\<open>sys.evt.EXT.prestart\<close>, called with \<open>NULL\<close>) is the collaborator
  \<open>sys_extprocess\<close>.
\<close>

definition task_idle :: "m2defs \<Rightarrow> 'b extern \<Rightarrow> 'b kernel \<Rightarrow> ot_uint option \<times> 'b kernel" where
  "task_idle d e k =
     (let session_p = session_top (sops e) (session k) in
      if 0 \<le>s session_count (sops e) (session k)
         \<and> netstate (deref k session_p) AND M2_NETSTATE_CONNECTED d \<noteq> 0
      then (Some (counter (deref k session_p)), k)
      else
       (let (work, k1) = sys_loadapp e k in
        if work then (None, k1)
        else
         (let event_eta = sub_next_event k1 in
          if event_eta \<le>s 0 then (None, k1) else (Some (ucast event_eta), k1))))"

definition clear_processing :: "m2defs \<Rightarrow> 'b kernel \<Rightarrow> 'b kernel" where
  "clear_processing d k = k\<lparr>sys_mutex := sys_mutex k AND NOT (SYS_MUTEX_PROCESSING d)\<rparr>"

definition task_processing :: "m2defs \<Rightarrow> 'b extern \<Rightarrow> 'b kernel \<Rightarrow> fault + 'b kernel" where
  "task_processing d e k =
     (let session_p = session_top (sops e) (session k);
          k1 = deref_update session_p (counter_update (\<lambda>_. 0)) k;
          (proc_score, k2) = network_route_ff e session_p k1
      in if 0 \<le>s proc_score then
           (let k3 = sub_fceval proc_score k2;
                k4 = k3\<lparr>sys_evt_hold_cycle := 0\<rparr>;
                k5 = k4\<lparr>dll_idle_state := M2_MACIDLE_HOLD d\<rparr>
            in if flags (deref k5 session_p) AND M2FI_LISTEN d \<noteq> 0 then
                 (let k6 = k5\<lparr>session := snd (session_refresh (sops e) (tc (dll_comm k5)) (session k5))\<rparr>;
                      k7 = k6\<lparr>session := session_drop (sops e) (session k6)\<rparr>;
                      (s_clone, s) = session_new (sops e) (tc (dll_comm k7))
                                       (M2_NETSTATE_REQRX d OR M2_NETSTATE_ASSOCIATED d)
                                       (chanlist0 e k7 (rx_chanlist (dll_comm k7))) (session k7);
                      k8 = k7\<lparr>session := s\<rparr>
                  in case s_clone of
                       None \<Rightarrow> Inl Null_deref
                     | Some c \<Rightarrow>
                        (let k9 = deref_update c (dialog_id_update (\<lambda>_. dialog_id (deref k8 session_p))) k8;
                             k10 = deref_update c (session_subnet_update (\<lambda>_. session_subnet (deref k9 session_p))) k9;
                             k11 = deref_update c (channel_update (\<lambda>_. channel (deref k10 session_p))) k10;
                             k12 = dll_comm_update (redundants_update (\<lambda>_. 0)) k11;
                             k13 = dll_comm_update (rx_chanlist_update (\<lambda>_. Scratch_ptr 1)) k12;
                             k14 = dll_comm_update (scratch_update (\<lambda>m. m(1 := channel (deref k13 session_p)))) k13;
                             k15 = dll_comm_update (rx_timeout_update (\<lambda>_. 10)) k14;
                             k16 = dll_comm_update (tc_update (\<lambda>t. t - rm2_pkt_duration e (length_q (txq k15)))) k15
                         in Inr (clear_processing d k16)))
               else Inr (clear_processing d k5))
         else Inr (clear_processing d k2))"

definition task_radio :: "m2defs \<Rightarrow> 'b extern \<Rightarrow> 'b kernel \<Rightarrow> fault + (ot_uint option \<times> 'b kernel)" where
  "task_radio d e k =
     (if rfa_nextevent (sys_evt_RFA k) \<le>s 0 then
        (if rfa_event_no (sys_evt_RFA k) < 3 then Inr (None, sysevt_receive d k)
         else if rfa_event_no (sys_evt_RFA k) < 5 then
           (case sysevt_txcsma d e k of Inl f \<Rightarrow> Inl f | Inr k1 \<Rightarrow> Inr (None, k1))
         else Inr (Some 1, SYS_WATCHDOG_RUN k))
      else Inr (Some (rfa_nextevent (sys_evt_RFA k)), k))"

text \<open>The call table of the session task is \<open>{initftx, fscan, initbtx, bscan}\<close>.\<close>

definition task_session :: "m2defs \<Rightarrow> 'b extern \<Rightarrow> 'b kernel \<Rightarrow> fault + 'b kernel" where
  "task_session d e k =
     (let k1 = k\<lparr>session := session_drop (sops e) (session k)\<rparr>;
          k2 = k1\<lparr>dll_idle_state := sub_default_idle d k1\<rparr>;
          call_code = drop_bit 5 (session_netstate (sops e) (session k2))
      in if call_code AND 4 \<noteq> 0
         then Inr (sys_idle e (k2\<lparr>session := session_pop (sops e) (session k2)\<rparr>))
         else if call_code = 0 then sysevt_initftx d e k2
         else if call_code = 1 then Inr (sysevt_fscan d e k2)
         else if call_code = 2 then Inr (sysevt_initbtx d k2)
         else Inr (sysevt_bscan d e k2))"

text \<open>The hold task of a build with SYS_RECEIVE and ENDPOINT.\<close>

definition task_hold :: "m2defs \<Rightarrow> 'b extern \<Rightarrow> 'b kernel \<Rightarrow> 'b kernel" where
  "task_hold d e k =
     (let k1 = k\<lparr>sys_evt_hold_cycle :=
                  sys_evt_hold_cycle k + (if cursor (HSS k) = 0 then 1 else 0)\<rparr>
      in if active (dll_netconf k1) AND M2_SET_CLASSMASK d = M2_SET_ENDPOINT d
            \<and> sys_evt_hold_cycle k1 = hold_limit (dll_netconf k1)
         then sysevt_sleepscan d e (sys_goto_sleep k1)
         else sysevt_holdscan d e k1)"

text \<open>
  The body of the loop of \<open>sys_event_manager\<close>, up to the end of the \<open>switch\<close>:
  \<open>Some v\<close> when the function returns \<open>v\<close> in this iteration, \<open>None\<close> when the loop goes on.
\<close>

definition lift_break :: "fault + 'b kernel \<Rightarrow> fault + (ot_uint option \<times> 'b kernel)" where
  "lift_break r = (case r of Inl f \<Rightarrow> Inl f | Inr k \<Rightarrow> Inr (None, k))"

definition sys_event_manager_iter ::
    "m2defs \<Rightarrow> 'b extern \<Rightarrow> ot_uint \<Rightarrow> 'b kernel \<Rightarrow> fault + (ot_uint option \<times> 'b kernel)" where
  "sys_event_manager_iter d e elapsed k =
     (let k1 = call Platform_flush_gptim k;
          k2 = SYS_WATCHDOG_CHECK k1;
          (task, k3) = sub_clock_tasks d e elapsed k2
      in if task = TASK_idle then Inr (task_idle d e k3)
         else if task = TASK_processing then lift_break (task_processing d e k3)
         else if task = TASK_radio then task_radio d e k3
         else if task = TASK_session then lift_break (task_session d e k3)
         else if task = TASK_hold then Inr (None, task_hold d e k3)
         else if task = TASK_sleep then Inr (None, sysevt_sleepscan d e k3)
         else if task = TASK_beacon then lift_break (sysevt_beacon d e k3)
         else if task = TASK_external then Inr (None, sys_extprocess e k3)
         else Inr (None, sys_panic e 64 k3))"

text \<open>
  \<open>sys_event_manager\<close>: a \<open>do ... while (1)\<close>. The first argument bounds the number of
  iterations; \<open>None\<close> says that the function has not returned within the bound.
\<close>

fun sys_event_manager ::
    "nat \<Rightarrow> m2defs \<Rightarrow> 'b extern \<Rightarrow> ot_uint \<Rightarrow> 'b kernel \<Rightarrow> (fault + (ot_uint \<times> 'b kernel)) option" where
  "sys_event_manager 0 d e elapsed k = None"
| "sys_event_manager (Suc n) d e elapsed k =
     (case sys_event_manager_iter d e elapsed k of
        Inl f \<Rightarrow> Some (Inl f)
      | Inr (Some v, k1) \<Rightarrow> Some (Inr (v, k1))
      | Inr (None, k1) \<Rightarrow>
          (let k2 = SYS_WATCHDOG_RESET d k1
           in sys_event_manager n d e (platform_get_gptim e k2) k2))"

text \<open>\<open>otapi_start_flood\<close>; it runs the event manager when the flood is armed.\<close>

definition otapi_start_flood ::
    "nat \<Rightarrow> m2defs \<Rightarrow> 'b extern \<Rightarrow> ot_u16 \<Rightarrow> 'b kernel \<Rightarrow> (fault + (ot_u16 \<times> 'b kernel)) option" where
  "otapi_start_flood n d e flood_duration k =
     (let session_p = session_top (sops e) (session k) in
      if flood_duration = 0 then Some (Inr (otapi_start_dialog k))
      else
       (let (r, k1) = m2advp_init_flood e session_p flood_duration k in
        if r <s 0 then Some (Inr (0, k1\<lparr>session := session_pop (sops e) (session k1)\<rparr>))
        else sys_event_manager n d e 0 (sysevt_initbtx d k1)))"

subsection \<open>Notions used by the statements\<close>

text \<open>
  The idle-time event \<open>i\<close> is ready once it is clocked by \<open>elapsed\<close>: it is enabled and
  its countdown, less \<open>elapsed\<close>, is not positive.
\<close>

definition idle_ready :: "ot_uint \<Rightarrow> 'b kernel \<Rightarrow> nat \<Rightarrow> bool" where
  "idle_ready elapsed k i \<longleftrightarrow>
     event_no (sys_evt_idle k i) \<noteq> 0 \<and> nextevent (sys_evt_idle k i) - ucast elapsed \<le>s 0"

text \<open>The radio operations among the outside calls of a state.\<close>

definition radio_calls :: "'b kernel \<Rightarrow> ext_call list" where
  "radio_calls k = filter is_radio_call (calls k)"

text \<open>\<open>n\<close> new-slot calls in a row, without a reset of \<open>tc\<close> in between.\<close>

fun rigd_newslots :: "nat \<Rightarrow> m2defs \<Rightarrow> 'b extern \<Rightarrow> 'b kernel \<Rightarrow> fault + 'b kernel" where
  "rigd_newslots 0 d e k = Inr k"
| "rigd_newslots (Suc n) d e k =
     (case sub_rigd_newslot d e k of
        Inl f \<Rightarrow> Inl f
      | Inr (offset, k1) \<Rightarrow> rigd_newslots n d e k1)"

subsection \<open>An instance: values for the constants, and stand-ins for the collaborators\<close>

definition defs_example :: m2defs where
  "defs_example =
     \<lparr> BIG_ENDIAN = False, INT_16BIT = True, SWDP = 300,
       SYS_MUTEX_RADIO_LISTEN = 0x01, SYS_MUTEX_RADIO_DATA = 0x02, SYS_MUTEX_PROCESSING = 0x04,
       M2_NETSTATE_INIT = 0x08, M2_NETSTATE_REQTX = 0x00, M2_NETSTATE_REQRX = 0x20,
       M2_NETSTATE_RESP = 0x10, M2_NETSTATE_RESPTX = 0x10, M2_NETSTATE_RESPRX = 0x30,
       M2_NETSTATE_TMASK = 0x70, M2_NETSTATE_CONNECTED = 0x02, M2_NETSTATE_ASSOCIATED = 0x03,
       M2_NETSTATE_DSDIALOG = 0x04, M2_NETFLAG_FIRSTRX = 0x01, M2_NETFLAG_FLOOD = 0x40,
       M2_NETFLAG_SCRAP = 0x80, M2FI_LISTEN = 0x80,
       M2_CSMACA_NA2P = 0x00, M2_CSMACA_A2P = 0x40, M2_CSMACA_MACCA = 0x38,
       M2_CSMACA_NOCSMA = 0x04,
       M2_MACIDLE_OFF = 0, M2_MACIDLE_SLEEP = 1, M2_MACIDLE_HOLD = 2,
       M2_SET_CLASSMASK = 0x0F00, M2_SET_SUBCONTROLLER = 0x0400, M2_SET_ENDPOINT = 0x0200,
       M2_PARAM_BEACON_TCA = 12, RM2_ERR_BADCHANNEL = - 3, RM2_ERR_CCAFAIL = - 2,
       ISF_ID_hold_scan_sequence = 5, ISF_ID_sleep_scan_sequence = 4,
       ISF_ID_beacon_transmit_sequence = 6 \<rparr>"

text \<open>
  A session module that keeps in \<open>book\<close> the pointers of the stacked sessions, the top
  first.
\<close>

definition sops_example :: "(nat list) session_ops" where
  "sops_example =
     \<lparr> session_init = (\<lambda>s. s\<lparr>book := []\<rparr>),
       session_flush = (\<lambda>s. s\<lparr>book := filter (\<lambda>p. counter (heap s p) \<noteq> 0) (book s)\<rparr>),
       session_pop = (\<lambda>s. s\<lparr>book := tl (book s)\<rparr>),
       session_drop = (\<lambda>s. s),
       session_refresh = (\<lambda>elapsed s.
          case book s of
            [] \<Rightarrow> (False, s)
          | p # ps \<Rightarrow>
              (counter (heap s p) \<le> elapsed,
               s\<lparr>heap := (heap s)(p := (heap s p)\<lparr>counter :=
                    (if counter (heap s p) \<le> elapsed then 0 else counter (heap s p) - elapsed)\<rparr>)\<rparr>)),
       session_new = (\<lambda>wait ns chan s.
          (Some (length (book s)),
           s\<lparr>heap := (heap s)(length (book s) :=
                 \<lparr>channel = chan, session_subnet = 0, flags = 0, dialog_id = 0,
                  netstate = ns, counter = wait\<rparr>),
             book := length (book s) # book s\<rparr>)),
       session_top = (\<lambda>s. case book s of [] \<Rightarrow> 0 | p # ps \<Rightarrow> p),
       session_count = (\<lambda>s. of_nat (length (book s)) - 1),
       session_netstate = (\<lambda>s. netstate (heap s (case book s of [] \<Rightarrow> 0 | p # ps \<Rightarrow> p))) \<rparr>"

definition extern_example :: "(nat list) extern" where
  "extern_example =
     \<lparr> sops = sops_example,
       radio_rssi = (\<lambda>k. - 60),
       rm2_txcsma = (\<lambda>k. - 1),
       rm2_pkt_duration = (\<lambda>n. n),
       rm2_default_tgd = (\<lambda>c. 5),
       phymac0_tg = 5,
       phymac0_link_qual = 80,
       platform_prand_u16 = (\<lambda>k. 12345 + of_nat (length (calls k))),
       platform_get_gptim = (\<lambda>k. 1),
       otutils_calc_timeout = (\<lambda>c. ucast (c AND 0x3F)),
       foreign_byte = (\<lambda>a k. 0),
       q_init = (\<lambda>buffer n. \<lparr>alloc = n, length_q = 0, options = 0, front = buffer,
                              back_q = unat n, getcursor = 0, putcursor = 0\<rparr>),
       q_writebyte = (\<lambda>q b. q\<lparr>front := (front q)(putcursor q := b),
                              putcursor := putcursor q + 1, length_q := length_q q + 1\<rparr>),
       network_route_ff = (\<lambda>p k. (- 1, k)),
       m2np_header = (\<lambda>p addr nack k. k),
       m2np_footer = (\<lambda>p k. k),
       m2qp_isf_call = (\<lambda>c q k. (0, k)),
       m2advp_init_flood = (\<lambda>p duration k. (0, k)),
       m2dp_mark_dsframe = (\<lambda>p k. k),
       sys_loadapp = (\<lambda>k. (False, k)),
       sys_extprocess = (\<lambda>k. k) \<rparr>"

text \<open>
  A state at rest: no session, nothing armed, empty queues and files, no outside call yet.
\<close>

definition kernel_example :: "(nat list) kernel" where
  "kernel_example =
     \<lparr> sys_mutex = 0, sys_watchdog = 300, sys_evt_hold_cycle = 0, sys_evt_adv_time = 0,
       sys_evt_RFA = \<lparr>rfa_event_no = 0, rfa_nextevent = 0\<rparr>,
       sys_evt_idle = (\<lambda>i. \<lparr>event_no = 0, sched_id = 0, cursor = 0, nextevent = 0\<rparr>),
       dll_idle_state = 2,
       dll_netconf = \<lparr>subnet = 0x5A, b_subnet = 0x5A, dd_flags = 0, b_attempts = 0,
                      active = 0x0200, hold_limit = 3\<rparr>,
       dll_comm = \<lparr>tc = 1000, tca = 1000, rx_timeout = 50, csmaca_params = 0, redundants = 2,
                   tx_channels = 1, rx_channels = 1, tx_chanlist = Scratch_ptr 0,
                   rx_chanlist = Scratch_ptr 1, scratch = (\<lambda>i. 0)\<rparr>,
       session = \<lparr>heap = (\<lambda>p. \<lparr>channel = 0, session_subnet = 0, flags = 0, dialog_id = 0,
                               netstate = 0, counter = 0\<rparr>),
                  book = []\<rparr>,
       rxq = \<lparr>alloc = 256, length_q = 0, options = 0, front = (\<lambda>i. 0), back_q = 256,
              getcursor = 0, putcursor = 0\<rparr>,
       txq = \<lparr>alloc = 256, length_q = 0, options = 0, front = (\<lambda>i. 0), back_q = 256,
              getcursor = 0, putcursor = 0\<rparr>,
       isf = (\<lambda>file_id. \<lparr>length_f = 0, data_f = (\<lambda>i. 0)\<rparr>),
       calls = [] \<rparr>"

text \<open>A state in which the hold-scan and the beacon event are both due, and nothing else is.\<close>

definition two_ready_example :: "(nat list) kernel" where
  "two_ready_example = kernel_example\<lparr>sys_evt_idle :=
      (\<lambda>i. \<lparr>event_no = (if i = 0 \<or> i = 2 then 1 else 0), sched_id = 0, cursor = 0,
             nextevent = 0\<rparr>)\<rparr>"

text \<open>A state whose contention window is down to one tick.\<close>

definition tc_one_example :: "(nat list) kernel" where
  "tc_one_example = kernel_example\<lparr>dll_comm := (dll_comm kernel_example)\<lparr>tc := 1, tca := 1\<rparr>\<rparr>"

text \<open>
  A state with a received frame whose subnet byte is \<open>0xF3\<close>, for a device of subnet
  \<open>0x5A\<close>; the frame's power byte \<open>0x50\<close> stands for 0 dBm.
\<close>

definition subnet_example :: "(nat list) kernel" where
  "subnet_example = kernel_example\<lparr>rxq := (rxq kernel_example)\<lparr>front :=
      (\<lambda>i. if i = 1 then 0x50 else if i = 2 then 0xF3 else 0)\<rparr>\<rparr>"

text \<open>
  A foreground scan under way: one session, \<open>rx_timeout = 50\<close>, two redundants left.
\<close>

definition fscan_example :: "(nat list) kernel" where
  "fscan_example = kernel_example
     \<lparr>sys_mutex := 0x01,
      sys_evt_RFA := \<lparr>rfa_event_no = 2, rfa_nextevent = 50\<rparr>,
      session := \<lparr>heap = (\<lambda>p. \<lparr>channel = 7, session_subnet = 0x5A, flags = 0, dialog_id = 1,
                               netstate = 0x20, counter = 0\<rparr>),
                  book = [0]\<rparr>\<rparr>"

text \<open>
  An endpoint in hold after two hold cycles, with \<open>hold_limit = 3\<close>, a due hold-scan event
  whose cursor is at 0, and a sleep-scan sequence of two records: channel \<open>0x10\<close>, flags 5,
  next scan in 200 ticks; channel \<open>0x12\<close>, flags 5, next scan in 256 ticks.
\<close>

definition sleep_scan_file :: vlFILE where
  "sleep_scan_file =
     \<lparr>length_f = 8,
      data_f = (\<lambda>i. [0x10, 0x05, 0x00, 0xC8, 0x12, 0x05, 0x01, 0x00, 0, 0] ! min i 9)\<rparr>"

definition hold_example :: "(nat list) kernel" where
  "hold_example = kernel_example
     \<lparr>sys_evt_hold_cycle := 2,
      sys_evt_idle := (\<lambda>i. \<lparr>event_no = (if i = 0 then 1 else 0), sched_id = 0, cursor = 0,
                             nextevent = 0\<rparr>),
      isf := (\<lambda>file_id. if file_id = 4 then sleep_scan_file
                         else \<lparr>length_f = 0, data_f = (\<lambda>i. 0)\<rparr>)\<rparr>"

text \<open>
  ISF 0 as a big-endian writer stores it, with \<open>hold_limit = 3\<close> in the two bytes at
  offset 8.
\<close>

definition netconf_file :: vlFILE where
  "netconf_file =
     \<lparr>length_f = 10,
      data_f = (\<lambda>i. [0x00, 0x00, 0x5A, 0x5A, 0x02, 0x00, 0x00, 0x02, 0x00, 0x03] ! min i 9)\<rparr>"

definition refresh_example :: "(nat list) kernel" where
  "refresh_example = kernel_example
     \<lparr>isf := (\<lambda>file_id. if file_id = 0 then netconf_file
                         else \<lparr>length_f = 0, data_f = (\<lambda>i. 0)\<rparr>)\<rparr>"

section \<open>Properties\<close>

subsection \<open>Task selection\<close>

lemma find_append:
  "find P (xs @ ys) = (case find P xs of None \<Rightarrow> find P ys | Some x \<Rightarrow> Some x)"
  by (induction xs) auto

lemma find_upt_first:
  assumes "i < n" and "P i" and "\<forall>j<i. \<not> P j"
  shows "find P [0..<n] = Some i"
  using assms by (auto simp add: find_Some_iff intro!: exI [of _ i])

lemma clock_idle_frame [simp]:
  "sys_mutex (fst (clock_idle n el (k, out))) = sys_mutex k"
  "sys_evt_RFA (fst (clock_idle n el (k, out))) = sys_evt_RFA k"
  "session (fst (clock_idle n el (k, out))) = session k"
  "dll_comm (fst (clock_idle n el (k, out))) = dll_comm k"
  by (induction n arbitrary: k out; simp add: Let_def idle_update_def)+

text \<open>
  The loop leaves in \<open>output\<close> the task of the first ready event, counted from index 0:
  it runs downwards, and each ready event overwrites the choice made before.
\<close>

lemma clock_idle_output:
  "snd (clock_idle n el (k, out)) =
     (case find (idle_ready el k) [0..<n] of Some i \<Rightarrow> TASK_hold + i | None \<Rightarrow> out)"
proof (induction n arbitrary: k out)
  case 0
  then show ?case by simp
next
  case (Suc n)
  let ?k1 = "idle_update n (nextevent_update (\<lambda>t. t - ucast el)) k"
  have same: "find (idle_ready el ?k1) [0..<n] = find (idle_ready el k) [0..<n]"
    by (rule find_cong) (auto simp: idle_ready_def idle_update_def)
  have rdy: "(event_no (sys_evt_idle ?k1 n) \<noteq> 0 \<and> nextevent (sys_evt_idle ?k1 n) \<le>s 0)
               = idle_ready el k n"
    by (simp add: idle_ready_def idle_update_def)
  show ?case
    by (simp add: Let_def Suc.IH same rdy find_append split: option.split)
qed

lemma idle_ready_dll_comm_update [simp]:
  "idle_ready el (dll_comm_update f k) = idle_ready el k"
  by (rule ext) (simp add: idle_ready_def)

lemma sub_clock_tasks_output:
  "fst (sub_clock_tasks d e elapsed k) =
     (if sys_mutex k AND SYS_MUTEX_PROCESSING d \<noteq> 0 then TASK_processing
      else if rfa_event_no (sys_evt_RFA k) \<noteq> 0 then TASK_radio
      else if fst (session_refresh (sops e) elapsed (session k)) then TASK_session
      else snd (clock_idle IDLE_EVENTS elapsed
                  (dll_comm_update (tca_update (\<lambda>t. t - elapsed)) k, TASK_idle)))"
  by (simp add: sub_clock_tasks_def Let_def case_prod_beta)

lemma two_ready_example_facts:
  "sys_mutex two_ready_example AND SYS_MUTEX_PROCESSING defs_example = 0"
  "rfa_event_no (sys_evt_RFA two_ready_example) = 0"
  "\<not> fst (session_refresh (sops extern_example) 0 (session two_ready_example))"
  "idle_ready 0 two_ready_example 0"
  "\<not> idle_ready 0 two_ready_example 1"
  "idle_ready 0 two_ready_example 2"
  "\<not> idle_ready 0 two_ready_example 3"
  by (simp_all add: two_ready_example_def kernel_example_def defs_example_def
        extern_example_def sops_example_def idle_ready_def)

text \<open>
  Claim C1, as the code has it. When no processing, no radio event and no session is
  pending, \<open>sub_clock_tasks\<close> selects the ready idle-time event of the lowest index: the
  loop runs from the highest index down and a later match overwrites an earlier one, so
  Hold is chosen over Sleep, and Sleep over Beacon.
\<close>

theorem C1_lowest_ready_idle_event_selected:
  assumes "sys_mutex k AND SYS_MUTEX_PROCESSING d = 0"
      and "rfa_event_no (sys_evt_RFA k) = 0"
      and "\<not> fst (session_refresh (sops e) elapsed (session k))"
      and "i < IDLE_EVENTS" and "idle_ready elapsed k i"
      and "\<forall>j<i. \<not> idle_ready elapsed k j"
  shows "fst (sub_clock_tasks d e elapsed k) = TASK_hold + i
       \<and> (i = 0 \<longrightarrow> fst (sub_clock_tasks d e elapsed k) = TASK_hold)
       \<and> (i = 1 \<longrightarrow> fst (sub_clock_tasks d e elapsed k) = TASK_sleep)
       \<and> (i = 2 \<longrightarrow> fst (sub_clock_tasks d e elapsed k) = TASK_beacon)"
proof -
  have "fst (sub_clock_tasks d e elapsed k) = TASK_hold + i"
    using assms by (simp add: sub_clock_tasks_output clock_idle_output find_upt_first)
  then show ?thesis
    by (simp add: TASK_hold_def TASK_sleep_def TASK_beacon_def)
qed

theorem C1_lowest_ready_idle_event_selected_witness:
  "idle_ready 0 two_ready_example 0 \<and> idle_ready 0 two_ready_example 2
   \<and> fst (sub_clock_tasks defs_example extern_example 0 two_ready_example) = TASK_hold"
  using C1_lowest_ready_idle_event_selected [of two_ready_example defs_example extern_example 0 0]
  by (simp add: two_ready_example_facts IDLE_EVENTS_def)

text \<open>
  Claim C1, as it is stated, fails: with the hold-scan event (index 0) and the beacon event
  (index 2) both ready, the external event (index 3) not ready and nothing of higher
  priority pending, the task selected is not that of the highest ready index, the beacon
  task.
\<close>

theorem C1_highest_ready_idle_event_counterexample:
  "sys_mutex two_ready_example AND SYS_MUTEX_PROCESSING defs_example = 0
   \<and> rfa_event_no (sys_evt_RFA two_ready_example) = 0
   \<and> \<not> fst (session_refresh (sops extern_example) 0 (session two_ready_example))
   \<and> idle_ready 0 two_ready_example 0 \<and> idle_ready 0 two_ready_example 2
   \<and> \<not> idle_ready 0 two_ready_example 3
   \<and> fst (sub_clock_tasks defs_example extern_example 0 two_ready_example) \<noteq> TASK_beacon
   \<and> fst (sub_clock_tasks defs_example extern_example 0 two_ready_example) = TASK_hold"
  by (simp add: sub_clock_tasks_output clock_idle_output two_ready_example_facts
        find_upt_first [of 0] IDLE_EVENTS_def TASK_hold_def TASK_beacon_def)

text \<open>
  Claim C2. \<open>sub_clock_tasks\<close> returns one task index, by strict priority: the processing
  task when \<open>SYS_MUTEX_PROCESSING\<close> is set in \<open>sys.mutex\<close>; else the radio task when
  \<open>RFA.event_no\<close> is not 0; else the session task when \<open>session_refresh\<close> reports a ready
  session; else the task of a ready idle-time event; else the idle task.
\<close>

theorem C2_task_priority:
  "fst (sub_clock_tasks d e elapsed k) =
     (if sys_mutex k AND SYS_MUTEX_PROCESSING d \<noteq> 0 then TASK_processing
      else if rfa_event_no (sys_evt_RFA k) \<noteq> 0 then TASK_radio
      else if fst (session_refresh (sops e) elapsed (session k)) then TASK_session
      else case find (idle_ready elapsed k) [0..<IDLE_EVENTS] of
             Some i \<Rightarrow> TASK_hold + i
           | None \<Rightarrow> TASK_idle)"
  by (simp add: sub_clock_tasks_output clock_idle_output)

theorem C2_task_priority_witness:
  "fst (sub_clock_tasks defs_example extern_example 0
          (two_ready_example\<lparr>sys_mutex := 0x04,
             sys_evt_RFA := \<lparr>rfa_event_no = 2, rfa_nextevent = 0\<rparr>\<rparr>)) = TASK_processing
   \<and> fst (sub_clock_tasks defs_example extern_example 0
          (two_ready_example\<lparr>sys_evt_RFA := \<lparr>rfa_event_no = 2, rfa_nextevent = 0\<rparr>\<rparr>)) = TASK_radio
   \<and> fst (sub_clock_tasks defs_example extern_example 0 kernel_example) = TASK_idle"
  by (simp add: C2_task_priority two_ready_example_def kernel_example_def defs_example_def
        extern_example_def sops_example_def idle_ready_def IDLE_EVENTS_def upt_rec)

subsection \<open>The MAC filter\<close>

lemma xor_and_eq_zero_iff:
  fixes a b m :: "'a::len word"
  shows "(a XOR b) AND m = 0 \<longleftrightarrow> a AND m = b AND m"
  by (auto simp add: bit_eq_iff bit_and_iff bit_xor_iff)

text \<open>
  The link loss as a number: the transmit power read from the frame, less the signal
  strength the radio reports, when that difference fits an \<open>ot_int\<close>.
\<close>

lemma tx_eirp_field:
  fixes f :: "8 word"
  shows "sint (ucast (drop_bit 1 f AND 0x3F) :: 16 word) = int (unat f div 2 mod 64)"
proof -
  have m: "(0x3F :: 8 word) = mask 6" by (simp add: mask_eq_exp_minus_1)
  have "unat (drop_bit 1 f AND 0x3F) = unat f div 2 mod 64"
    unfolding m
    by (simp add: unat_mod unat_div drop_bit_eq_div take_bit_eq_mod flip: take_bit_eq_mask)
  then have "uint (drop_bit 1 f AND 0x3F) = int (unat f div 2 mod 64)"
    by (simp only: uint_nat)
  moreover have "int (unat f div 2 mod 64) < 2 ^ 15" "0 \<le> int (unat f div 2 mod 64)"
    by simp_all
  ultimately show ?thesis
    by (simp only: sint_uint uint_up_ucast is_up len_of_numeral_defs)
       (simp add: signed_take_bit_int_eq_self)
qed

lemma linkloss_sint:
  assumes "- 32744 \<le> sint (radio_rssi e k)" and "sint (radio_rssi e k) \<le> 32727"
  shows "sint (linkloss e k)
           = int (unat (front (rxq k) 1) div 2 mod 64) - 40 - sint (radio_rssi e k)"
proof -
  let ?u = "int (unat (front (rxq k) 1) div 2 mod 64)"
  define x :: "16 word" where "x = ucast (drop_bit 1 (front (rxq k) 1) AND 0x3F)"
  have u: "0 \<le> ?u" "?u < 64" by simp_all
  have sx: "sint x = ?u" unfolding x_def by (rule tx_eirp_field)
  have 1: "sint (x - 40) = ?u - 40"
    using u by (simp add: sint_word_diff sx signed_take_bit_int_eq_self)
  have "sint (x - 40 - radio_rssi e k) = ?u - 40 - sint (radio_rssi e k)"
    using u assms
    by (simp add: sint_word_diff [of _ "radio_rssi e k"] 1 signed_take_bit_int_eq_self)
  then show ?thesis
    by (simp add: linkloss_def x_def)
qed

text \<open>
  Claim C5. \<open>sub_mac_filter\<close> returns true exactly when the link loss
  \<open>((rxq.front[1] >> 1) & 0x3F) - 40 - rssi\<close>, an \<open>ot_int\<close>, is at most
  \<open>phymac[0].link_qual\<close>, the upper nibble of \<open>rxq.front[2]\<close> is \<open>0xF0\<close> or that of
  \<open>dll.netconf.subnet\<close>, and \<open>rxq.front[2]\<close> masked by the lower nibble of the subnet
  gives that lower nibble. With subnet \<open>0x5A\<close> and \<open>rxq.front[2] = 0xF3\<close> it returns false.
\<close>

theorem C5_mac_filter:
  "(sub_mac_filter e k \<longleftrightarrow>
      linkloss e k \<le>s phymac0_link_qual e
      \<and> (front (rxq k) 2 AND 0xF0 = 0xF0
           \<or> front (rxq k) 2 AND 0xF0 = subnet (dll_netconf k) AND 0xF0)
      \<and> front (rxq k) 2 AND (subnet (dll_netconf k) AND 0x0F) = subnet (dll_netconf k) AND 0x0F)
   \<and> linkloss e k = ucast (drop_bit 1 (front (rxq k) 1) AND 0x3F) - 40 - radio_rssi e k
   \<and> (subnet (dll_netconf k) = 0x5A \<and> front (rxq k) 2 = 0xF3 \<longrightarrow> \<not> sub_mac_filter e k)"
  by (simp add: sub_mac_filter_def linkloss_def Let_def xor_and_eq_zero_iff)

theorem C5_mac_filter_witness:
  "subnet (dll_netconf subnet_example) = 0x5A \<and> front (rxq subnet_example) 2 = 0xF3
   \<and> \<not> sub_mac_filter extern_example subnet_example"
proof -
  have h: "subnet (dll_netconf subnet_example) = 0x5A \<and> front (rxq subnet_example) 2 = 0xF3"
    by (simp add: subnet_example_def kernel_example_def)
  with C5_mac_filter [of extern_example subnet_example] show ?thesis
    by blast
qed

subsection \<open>RIGD flow control\<close>

lemma uint_eq_sint:
  fixes t :: "16 word"
  assumes "0 \<le> sint t"
  shows "uint t = sint t"
proof -
  have "sint t < 2 ^ 16"
    using sint_lt [of t] by simp
  then show ?thesis
    using assms by (subst uint_sint) (simp add: take_bit_int_eq_self)
qed

lemma sint_halved:
  fixes t :: "16 word"
  shows "sint (signed_drop_bit 1 t) = sint t div 2"
    and "sint (signed_drop_bit (Suc 0) t) = sint t div 2"
  by (simp_all add: sint_signed_drop_bit_eq drop_bit_eq_div)

lemma c_rem_bound:
  fixes t :: "16 word"
  assumes "0 < sint t"
  shows "uint (c_rem_u16_int int16 random t) < sint t"
proof (cases int16)
  case True
  have "uint (random mod t) = uint random mod uint t" by (rule uint_mod)
  also have "\<dots> < uint t"
    using assms uint_eq_sint [of t] by simp
  finally show ?thesis
    using True assms uint_eq_sint [of t] by (simp add: c_rem_u16_int_def)
next
  case False
  have lt: "uint random mod \<bar>sint t\<bar> < sint t"
    using assms by simp
  have ge: "0 \<le> uint random mod \<bar>sint t\<bar>"
    using assms by simp
  have "sint t < 2 ^ 16" using sint_lt [of t] by simp
  with lt ge have "uint (word_of_int (uint random mod \<bar>sint t\<bar>) :: 16 word) = uint random mod \<bar>sint t\<bar>"
    by (simp add: uint_word_of_int_eq take_bit_int_eq_self)
  with lt False show ?thesis
    by (simp add: c_rem_u16_int_def)
qed

lemma sub_rigd_newslot_returns:
  assumes "2 \<le> sint (tc (dll_comm k))"
  shows "\<exists>r k'. sub_rigd_newslot d e k = Inr (r, k')
           \<and> k' = dll_comm_update (tca_update (\<lambda>_. signed_drop_bit 1 (tc (dll_comm k))))
                    (dll_comm_update (tc_update (\<lambda>_. signed_drop_bit 1 (tc (dll_comm k))))
                       (call Platform_prand_u16 k))
           \<and> sint (tc (dll_comm k')) = sint (tc (dll_comm k)) div 2
           \<and> tca (dll_comm k') = tc (dll_comm k')
           \<and> uint r < sint (tc (dll_comm k'))"
proof -
  let ?t = "signed_drop_bit 1 (tc (dll_comm k))"
  have pos: "0 < sint ?t"
    using assms by (simp add: sint_halved)
  then have nz: "?t \<noteq> 0" by auto
  show ?thesis
    using nz pos c_rem_bound [OF pos, of "INT_16BIT d" "platform_prand_u16 e k"]
    by (simp add: sub_rigd_newslot_def Let_def call_def sint_halved)
qed

lemma rigd_newslots_halves:
  "2 ^ n \<le> sint (tc (dll_comm k)) \<Longrightarrow>
   \<exists>k'. rigd_newslots n d e k = Inr k'
      \<and> sint (tc (dll_comm k')) = sint (tc (dll_comm k)) div 2 ^ n
      \<and> (0 < n \<longrightarrow> tca (dll_comm k') = tc (dll_comm k'))"
proof (induction n arbitrary: k)
  case 0
  then show ?case by simp
next
  case (Suc n)
  have "(2::int) \<le> 2 ^ Suc n" by simp
  with Suc.prems have two: "2 \<le> sint (tc (dll_comm k))" by linarith
  from sub_rigd_newslot_returns [OF two, of d e]
  obtain r k1 where k1: "sub_rigd_newslot d e k = Inr (r, k1)"
      "sint (tc (dll_comm k1)) = sint (tc (dll_comm k)) div 2"
      "tca (dll_comm k1) = tc (dll_comm k1)"
    by blast
  have "2 ^ n \<le> sint (tc (dll_comm k1))"
    using Suc.prems k1(2) by simp
  from Suc.IH [OF this]
  obtain k' where k': "rigd_newslots n d e k1 = Inr k'"
      "sint (tc (dll_comm k')) = sint (tc (dll_comm k1)) div 2 ^ n"
      "0 < n \<longrightarrow> tca (dll_comm k') = tc (dll_comm k')"
    by blast
  have "sint (tc (dll_comm k)) div 2 div 2 ^ n = sint (tc (dll_comm k)) div 2 ^ Suc n"
    by (simp add: zdiv_zmult2_eq)
  moreover have "n = 0 \<Longrightarrow> k' = k1" using k'(1) by simp
  ultimately show ?case
    using k1 k' by (cases "n = 0") auto
qed


lemma c_rem_positive:
  fixes t :: "16 word"
  assumes "0 < sint t"
  shows "c_rem_u16_int int16 random t = random mod t"
proof (cases int16)
  case True
  then show ?thesis by (simp add: c_rem_u16_int_def)
next
  case False
  have "\<bar>sint t\<bar> = uint t"
    using assms uint_eq_sint [of t] by simp
  then have "word_of_int (uint random mod \<bar>sint t\<bar>) = random mod t"
    by (simp add: word_mod_def)
  with False show ?thesis by (simp add: c_rem_u16_int_def)
qed

lemma sub_rigd_newslot_value:
  assumes "2 \<le> sint (tc (dll_comm k))"
  shows "sub_rigd_newslot d e k =
           Inr (platform_prand_u16 e k mod signed_drop_bit 1 (tc (dll_comm k)),
                dll_comm_update (tca_update (\<lambda>_. signed_drop_bit 1 (tc (dll_comm k))))
                  (dll_comm_update (tc_update (\<lambda>_. signed_drop_bit 1 (tc (dll_comm k))))
                     (call Platform_prand_u16 k)))"
proof -
  let ?t = "signed_drop_bit 1 (tc (dll_comm k))"
  have pos: "0 < sint ?t"
    using assms by (simp add: sint_halved)
  then have nz: "?t \<noteq> 0" by auto
  show ?thesis
    using nz c_rem_positive [OF pos, of "INT_16BIT d" "platform_prand_u16 e k"]
    by (simp add: sub_rigd_newslot_def Let_def call_def)
qed

lemma sub_rigd_newslot_faults:
  assumes "sint (tc (dll_comm k)) = 1 \<or> sint (tc (dll_comm k)) = 0"
  shows "sub_rigd_newslot d e k = Inl Div_by_zero"
proof -
  have "sint (signed_drop_bit 1 (tc (dll_comm k))) = 0"
    using assms by (auto simp add: sint_halved)
  moreover have "word_of_int (sint (signed_drop_bit 1 (tc (dll_comm k))))
                  = signed_drop_bit 1 (tc (dll_comm k))"
    by simp
  ultimately have "signed_drop_bit 1 (tc (dll_comm k)) = 0"
    by (simp del: of_int_sint)
  then show ?thesis
    by (simp add: sub_rigd_newslot_def Let_def call_def)
qed

lemma rigd_newslots_add:
  "rigd_newslots (m + n) d e k =
     (case rigd_newslots m d e k of Inl f \<Rightarrow> Inl f | Inr k' \<Rightarrow> rigd_newslots n d e k')"
  by (induction m arbitrary: k) (auto split: sum.splits)

lemma rigd_newslots_runs_into_zero:
  assumes "2 ^ n \<le> sint (tc (dll_comm k))" and "sint (tc (dll_comm k)) < 2 ^ Suc n"
  shows "rigd_newslots (Suc n) d e k = Inl Div_by_zero"
proof -
  from rigd_newslots_halves [OF assms(1), of d e]
  obtain k' where k': "rigd_newslots n d e k = Inr k'"
      "sint (tc (dll_comm k')) = sint (tc (dll_comm k)) div 2 ^ n"
    by blast
  have "sint (tc (dll_comm k)) div 2 ^ n = 1"
    using assms
    by (intro int_div_pos_eq [where r = "sint (tc (dll_comm k)) - 2 ^ n"]) simp_all
  with k'(2) have "sub_rigd_newslot d e k' = Inl Div_by_zero"
    by (simp add: sub_rigd_newslot_faults)
  with k'(1) rigd_newslots_add [of n 1 d e k] show ?thesis
    by simp
qed

text \<open>
  What holds while the window is at least 2. With RIGD selected, a new-slot call (\<open>sub_rigd_newslot\<close>,
  reached from \<open>sub_fcinit\<close> or \<open>sub_fcloop\<close>) that is entered with \<open>tc \<ge> 2\<close> halves
  \<open>dll.comm.tc\<close>, sets \<open>dll.comm.tca\<close> to the new \<open>tc\<close> and returns the offset
  \<open>random % tc\<close>, which lies in \<open>[0, tc)\<close>; hence from \<open>tc = T\<close> with \<open>T \<ge> 2^N\<close>, \<open>N\<close> new-slot calls without
  reset all return and leave \<open>tc = T >> N\<close>; from \<open>tc = 1000\<close> one \<open>sub_fcinit\<close> call leaves
  \<open>tc = 500\<close>, \<open>tca = 500\<close> and returns a value below 500.
\<close>

lemma rigd_newslot_halves_tc:
  "(2 \<le> sint (tc (dll_comm k)) \<longrightarrow>
      (\<exists>r k'. sub_rigd_newslot d e k = Inr (r, k')
         \<and> r = platform_prand_u16 e k mod tc (dll_comm k')
         \<and> sint (tc (dll_comm k')) = sint (tc (dll_comm k)) div 2
         \<and> tca (dll_comm k') = tc (dll_comm k')
         \<and> uint r < sint (tc (dll_comm k'))))
   \<and> (drop_bit 3 (csmaca_params (dll_comm k)) AND 3 = 0 \<longrightarrow>
        sub_fcinit d e k = sub_rigd_newslot d e k
        \<and> sub_fcloop d e k =
            (case sub_rigd_newslot d e k of
               Inl f \<Rightarrow> Inl f
             | Inr (new, k1) \<Rightarrow> Inr (sub_rigd_nextslot d k + new, k1)))
   \<and> (2 ^ n \<le> sint (tc (dll_comm k)) \<longrightarrow>
        (\<exists>k'. rigd_newslots n d e k = Inr k'
           \<and> sint (tc (dll_comm k')) = sint (tc (dll_comm k)) div 2 ^ n
           \<and> (0 < n \<longrightarrow> tca (dll_comm k') = tc (dll_comm k'))))
   \<and> (tc (dll_comm k) = 1000 \<and> drop_bit 3 (csmaca_params (dll_comm k)) AND 3 = 0 \<longrightarrow>
        (\<exists>r k'. sub_fcinit d e k = Inr (r, k')
           \<and> tc (dll_comm k') = 500 \<and> tca (dll_comm k') = 500 \<and> r < 500))"
proof (intro conjI impI)
  assume "2 \<le> sint (tc (dll_comm k))"
  from sub_rigd_newslot_returns [OF this, of d e] sub_rigd_newslot_value [OF this, of d e]
  show "\<exists>r k'. sub_rigd_newslot d e k = Inr (r, k')
         \<and> r = platform_prand_u16 e k mod tc (dll_comm k')
         \<and> sint (tc (dll_comm k')) = sint (tc (dll_comm k)) div 2
         \<and> tca (dll_comm k') = tc (dll_comm k')
         \<and> uint r < sint (tc (dll_comm k'))"
    by (auto simp add: call_def)
next
  assume "drop_bit 3 (csmaca_params (dll_comm k)) AND 3 = 0"
  then show "sub_fcinit d e k = sub_rigd_newslot d e k"
    by (simp add: sub_fcinit_def)
next
  assume "drop_bit 3 (csmaca_params (dll_comm k)) AND 3 = 0"
  then show "sub_fcloop d e k =
            (case sub_rigd_newslot d e k of
               Inl f \<Rightarrow> Inl f
             | Inr (new, k1) \<Rightarrow> Inr (sub_rigd_nextslot d k + new, k1))"
    by (simp add: sub_fcloop_def)
next
  assume "2 ^ n \<le> sint (tc (dll_comm k))"
  then show "\<exists>k'. rigd_newslots n d e k = Inr k'
           \<and> sint (tc (dll_comm k')) = sint (tc (dll_comm k)) div 2 ^ n
           \<and> (0 < n \<longrightarrow> tca (dll_comm k') = tc (dll_comm k'))"
    by (rule rigd_newslots_halves)
next
  assume a: "tc (dll_comm k) = 1000 \<and> drop_bit 3 (csmaca_params (dll_comm k)) AND 3 = 0"
  then have two: "2 \<le> sint (tc (dll_comm k))" by simp
  from sub_rigd_newslot_returns [OF two, of d e]
  obtain r k' where r: "sub_rigd_newslot d e k = Inr (r, k')"
      "k' = dll_comm_update (tca_update (\<lambda>_. signed_drop_bit 1 (tc (dll_comm k))))
                    (dll_comm_update (tc_update (\<lambda>_. signed_drop_bit 1 (tc (dll_comm k))))
                       (call Platform_prand_u16 k))"
      "uint r < sint (tc (dll_comm k'))"
    by blast
  have t: "tc (dll_comm k') = 500" "tca (dll_comm k') = 500"
    using a r(2) by simp_all
  have "r < 500"
    using r(3) t by (simp add: word_less_def)
  with a r(1) t show "\<exists>r k'. sub_fcinit d e k = Inr (r, k')
           \<and> tc (dll_comm k') = 500 \<and> tca (dll_comm k') = 500 \<and> r < 500"
    by (simp add: sub_fcinit_def)
qed

text \<open>At \<open>tc = 1000\<close>, and three new-slot calls in a row from there.\<close>

lemma rigd_newslot_halves_tc_example:
  "2 \<le> sint (tc (dll_comm kernel_example))
   \<and> drop_bit 3 (csmaca_params (dll_comm kernel_example)) AND 3 = 0
   \<and> sub_fcinit defs_example extern_example kernel_example
       = sub_rigd_newslot defs_example extern_example kernel_example
   \<and> (\<exists>r k'. sub_fcinit defs_example extern_example kernel_example = Inr (r, k')
         \<and> tc (dll_comm k') = 500 \<and> tca (dll_comm k') = 500 \<and> r < 500)
   \<and> (\<exists>k'. rigd_newslots 3 defs_example extern_example kernel_example = Inr k'
         \<and> sint (tc (dll_comm k')) = 125 \<and> tca (dll_comm k') = tc (dll_comm k'))"
proof -
  have h1: "2 \<le> sint (tc (dll_comm kernel_example))"
    by (simp add: kernel_example_def)
  have h2: "tc (dll_comm kernel_example) = 1000
            \<and> drop_bit 3 (csmaca_params (dll_comm kernel_example)) AND 3 = 0"
    by (simp add: kernel_example_def)
  have h3: "2 ^ 3 \<le> sint (tc (dll_comm kernel_example))"
    by (simp add: kernel_example_def)
  have h4: "sint (tc (dll_comm kernel_example)) div 2 ^ 3 = 125"
    by (simp add: kernel_example_def)
  note T = rigd_newslot_halves_tc [of kernel_example defs_example extern_example 3]
  from T h2 have A: "\<exists>r k'. sub_fcinit defs_example extern_example kernel_example = Inr (r, k')
         \<and> tc (dll_comm k') = 500 \<and> tca (dll_comm k') = 500 \<and> r < 500"
    by blast
  from T h3 have "\<exists>k'. rigd_newslots 3 defs_example extern_example kernel_example = Inr k'
         \<and> sint (tc (dll_comm k')) = sint (tc (dll_comm kernel_example)) div 2 ^ 3
         \<and> ((0::nat) < 3 \<longrightarrow> tca (dll_comm k') = tc (dll_comm k'))"
    by blast
  then have B: "\<exists>k'. rigd_newslots 3 defs_example extern_example kernel_example = Inr k'
         \<and> sint (tc (dll_comm k')) = 125 \<and> tca (dll_comm k') = tc (dll_comm k')"
    by (simp only: h4) simp
  from T h2 have C: "sub_fcinit defs_example extern_example kernel_example
                       = sub_rigd_newslot defs_example extern_example kernel_example"
    by blast
  from h1 h2 A B C show ?thesis by blast
qed

text \<open>
  Claim C3 fails where the halved window is 0. \<open>sub_rigd_newslot\<close> shifts \<open>dll.comm.tc\<close>
  right by one and then takes \<open>random % dll.comm.tc\<close> with no test of the divisor.
  Entered with \<open>tc = 1\<close> it divides by zero and returns no offset, and so do
  \<open>sub_fcinit\<close>, \<open>sub_fcloop\<close> and \<open>sysevt_initftx\<close> with RIGD selected. The halving
  itself leads there: from \<open>tc = 1000\<close> the tenth new-slot call without reset divides by
  zero, where the claim has \<open>tc\<close> floored at 0 and an offset returned by every call.
\<close>

theorem C3_rigd_newslot_divides_by_zero:
  "tc (dll_comm tc_one_example) = 1
   \<and> sub_rigd_newslot defs_example extern_example tc_one_example = Inl Div_by_zero
   \<and> sub_fcinit defs_example extern_example tc_one_example = Inl Div_by_zero
   \<and> sub_fcloop defs_example extern_example tc_one_example = Inl Div_by_zero
   \<and> sysevt_initftx defs_example extern_example tc_one_example = Inl Div_by_zero
   \<and> tc (dll_comm kernel_example) = 1000
   \<and> rigd_newslots 10 defs_example extern_example kernel_example = Inl Div_by_zero"
proof -
  have a: "tc (dll_comm tc_one_example) = 1" "csmaca_params (dll_comm tc_one_example) = 0"
    by (simp_all add: tc_one_example_def kernel_example_def)
  have b: "sub_rigd_newslot defs_example extern_example tc_one_example = Inl Div_by_zero"
    by (rule sub_rigd_newslot_faults) (simp add: a)
  have c: "sub_fcinit defs_example extern_example tc_one_example = Inl Div_by_zero"
    by (simp add: sub_fcinit_def a b)
  have d: "sub_fcloop defs_example extern_example tc_one_example = Inl Div_by_zero"
    by (simp add: sub_fcloop_def a b)
  have e: "sysevt_initftx defs_example extern_example tc_one_example = Inl Div_by_zero"
    by (simp add: sysevt_initftx_def sub_fcinit_def sub_rigd_newslot_def Let_def call_def
          tc_one_example_def kernel_example_def)
  have f: "tc (dll_comm kernel_example) = 1000"
    by (simp add: kernel_example_def)
  have "rigd_newslots (Suc 9) defs_example extern_example kernel_example = Inl Div_by_zero"
    by (rule rigd_newslots_runs_into_zero) (simp_all add: f)
  then have g: "rigd_newslots 10 defs_example extern_example kernel_example = Inl Div_by_zero"
    by simp
  from a(1) b c d e f g show ?thesis by blast
qed

subsection \<open>What the small helpers leave alone\<close>

lemma deref_deref_update [simp]:
  "deref (deref_update p f k) q = (if q = p then f (deref k p) else deref k q)"
  by (simp add: deref_def deref_update_def)

lemma deref_update_frame [simp]:
  "dll_comm (deref_update p f k) = dll_comm k"
  "sys_evt_RFA (deref_update p f k) = sys_evt_RFA k"
  "calls (deref_update p f k) = calls k"
  "sys_mutex (deref_update p f k) = sys_mutex k"
  by (simp_all add: deref_update_def)

lemma call_frame [simp]:
  "dll_comm (call c k) = dll_comm k"
  "sys_evt_RFA (call c k) = sys_evt_RFA k"
  "session (call c k) = session k"
  "sys_mutex (call c k) = sys_mutex k"
  "sys_evt_idle (call c k) = sys_evt_idle k"
  "sys_evt_hold_cycle (call c k) = sys_evt_hold_cycle k"
  "dll_netconf (call c k) = dll_netconf k"
  "dll_idle_state (call c k) = dll_idle_state k"
  "txq (call c k) = txq k"
  "rxq (call c k) = rxq k"
  "isf (call c k) = isf k"
  "calls (call c k) = calls k @ [c]"
  "deref (call c k) p = deref k p"
  by (simp_all add: call_def deref_def)

lemma deref_frame [simp]:
  "deref (sys_evt_RFA_update f1 k) p = deref k p"
  "deref (dll_comm_update f2 k) p = deref k p"
  "deref (sys_mutex_update f3 k) p = deref k p"
  "deref (sys_evt_idle_update f4 k) p = deref k p"
  "deref (idle_update i f5 k) p = deref k p"
  by (simp_all add: deref_def idle_update_def)

lemma idle_update_frame [simp]:
  "dll_comm (idle_update i f k) = dll_comm k"
  "sys_evt_RFA (idle_update i f k) = sys_evt_RFA k"
  "session (idle_update i f k) = session k"
  "sys_mutex (idle_update i f k) = sys_mutex k"
  "sys_evt_hold_cycle (idle_update i f k) = sys_evt_hold_cycle k"
  "dll_netconf (idle_update i f k) = dll_netconf k"
  "dll_idle_state (idle_update i f k) = dll_idle_state k"
  "txq (idle_update i f k) = txq k"
  "rxq (idle_update i f k) = rxq k"
  "isf (idle_update i f k) = isf k"
  "calls (idle_update i f k) = calls k"
  "sys_evt_idle (idle_update i f k) j = (if j = i then f (sys_evt_idle k i) else sys_evt_idle k j)"
  by (simp_all add: idle_update_def)

subsection \<open>The foreground receive callback\<close>


text \<open>
  The receive callback leaves \<open>redundants\<close> alone for every \<open>pcode\<close>, as long as it does
  not hand a damaged datastream frame to the transport layer.
\<close>

lemma rfevt_frx_keeps_redundants:
  assumes "fcode = 0
           \<or> netstate (deref k (session_top (sops e) (session k))) AND M2_NETSTATE_DSDIALOG d = 0"
  shows "redundants (dll_comm (rfevt_frx d e pcode fcode k)) = redundants (dll_comm k)"
  using assms by (auto simp add: rfevt_frx_def Let_def split: if_splits)





subsection \<open>Hold and sleep\<close>

lemma sub_scan_channel_frame:
  "sys_evt_hold_cycle (sub_scan_channel d e i f k) = sys_evt_hold_cycle k"
  "event_no (sys_evt_idle (sub_scan_channel d e i f k) j) = event_no (sys_evt_idle k j)"
  "dll_netconf (sub_scan_channel d e i f k) = dll_netconf k"
  "sys_evt_RFA (sub_scan_channel d e i f k) = sys_evt_RFA k"
  by (simp_all add: sub_scan_channel_def Let_def ISF_open_su_def)

lemma sys_goto_sleep_event_no:
  "event_no (sys_evt_idle (sys_goto_sleep k) j) =
     (if j = 0 then 0 else if j = 1 then 1 else event_no (sys_evt_idle k j))"
  by (simp add: sys_goto_sleep_def Let_def)

lemma sys_goto_sleep_effect:
  "event_no (SSS (sys_goto_sleep k)) = 1"
  "cursor (SSS (sys_goto_sleep k)) = 0"
  "event_no (HSS (sys_goto_sleep k)) = 0"
  "rfa_event_no (sys_evt_RFA (sys_goto_sleep k)) = 0"
  "sys_evt_hold_cycle (sys_goto_sleep k) = sys_evt_hold_cycle k"
  by (simp_all add: sys_goto_sleep_def Let_def)

lemma ubyte_vl_read:
  "ubyte big (vl_read big fp off) 0 = data_f fp off"
  "ubyte big (vl_read big fp off) 1 = data_f fp (off + 1)"
  "ubyte big (vl_read big fp off) (Suc 0) = data_f fp (Suc off)"
  unfolding ubyte_def vl_read_def
  by (cases big; simp; rule bit_word_eqI; auto simp add: bit_simps dest: bit_imp_le_length)+

lemma swap16_vl_read:
  "swap16 (vl_read False fp off) = vl_read True fp off"
  unfolding swap16_def vl_read_def
  by simp (rule bit_word_eqI, auto simp add: bit_simps dest: bit_imp_le_length)

lemma sub_scan_channel_effect:
  "calls (sub_scan_channel d e i f k) = calls k @ [Sig_prestart i]"
  "cursor (sys_evt_idle (sub_scan_channel d e i f k) i) =
     (if unat (cursor (sys_evt_idle k i) + 4) \<ge> unat (length_f (isf k f)) then 0
      else cursor (sys_evt_idle k i) + 4)"
  "nextevent (sys_evt_idle (sub_scan_channel d e i f k) i) =
     ucast (vl_read True (isf k f) (unat (cursor (sys_evt_idle k i) + 2)))"
  "dll_comm (sub_scan_channel d e i f k) =
     (dll_comm k)\<lparr>rx_timeout := otutils_calc_timeout e (data_f (isf k f) (unat (cursor (sys_evt_idle k i)) + 1)),
                   redundants := 0, rx_channels := 1, rx_chanlist := Scratch_ptr 1,
                   scratch := (scratch (dll_comm k))(1 := data_f (isf k f) (unat (cursor (sys_evt_idle k i))))\<rparr>"
  "session (sub_scan_channel d e i f k) =
     snd (session_new (sops e) 0
            (if data_f (isf k f) (unat (cursor (sys_evt_idle k i)) + 1) AND 0x80 \<noteq> 0
             then M2_NETSTATE_REQRX d OR M2_NETSTATE_INIT d OR M2_NETFLAG_FLOOD d
             else M2_NETSTATE_REQRX d OR M2_NETSTATE_INIT d)
            (data_f (isf k f) (unat (cursor (sys_evt_idle k i))))
            (session k))"
  by (simp_all add: sub_scan_channel_def Let_def ISF_open_su_def idle_update_def call_def
        ubyte_vl_read swap16_vl_read ac_simps)


lemma sys_goto_sleep_frame:
  "calls (sys_goto_sleep k) = calls k"
  "dll_comm (sys_goto_sleep k) = dll_comm k"
  "session (sys_goto_sleep k) = session k"
  "isf (sys_goto_sleep k) = isf k"
  by (simp_all add: sys_goto_sleep_def Let_def)

text \<open>
  Claim C6. Each dispatch of the hold task adds 1 to \<open>sys.evt.hold_cycle\<close> when
  \<open>HSS.cursor\<close> is 0. On a device whose active class is ENDPOINT, when \<open>hold_cycle\<close>
  reaches \<open>dll.netconf.hold_limit\<close> in that dispatch, the same dispatch goes from hold to
  sleep (\<open>SSS.event_no = 1\<close>, \<open>SSS.cursor = 0\<close>, \<open>HSS.event_no = 0\<close>) and runs one sleep
  scan from there at once. The scan is that of the first record of the sleep-scan sequence
  (channel byte at offset 0, flags byte at offset 1, big-endian next-scan time at offset 2):
  the prestart hook is called once for the sleep event and nothing else is called; one
  session is opened with \<open>session_new\<close> on the record's channel, with wait 0 and netstate
  \<open>REQRX | INIT\<close>, plus \<open>FLOOD\<close> when bit 7 of the flags is set; \<open>dll.comm.rx_timeout\<close>
  is \<open>otutils_calc_timeout\<close> of the flags, \<open>redundants\<close> is 0, and the one channel of the
  receive list is the record's; \<open>SSS.nextevent\<close> is the record's next-scan time and
  \<open>SSS.cursor\<close> moves to 4, or back to 0 at the end of the sequence. The sleep event stays
  enabled, the hold event disabled and the radio event idle. An iteration of the event
  manager whose \<open>sub_clock_tasks\<close> selects \<open>TASK_hold\<close> is such a dispatch.
\<close>

theorem C6_hold_to_sleep:
  "sys_evt_hold_cycle (task_hold d e k) = sys_evt_hold_cycle k + (if cursor (HSS k) = 0 then 1 else 0)
   \<and> (active (dll_netconf k) AND M2_SET_CLASSMASK d = M2_SET_ENDPOINT d
        \<and> sys_evt_hold_cycle k + (if cursor (HSS k) = 0 then 1 else 0) = hold_limit (dll_netconf k)
      \<longrightarrow> task_hold d e k =
            sysevt_sleepscan d e
              (sys_goto_sleep (k\<lparr>sys_evt_hold_cycle := hold_limit (dll_netconf k)\<rparr>))
          \<and> event_no (SSS (sys_goto_sleep (k\<lparr>sys_evt_hold_cycle := hold_limit (dll_netconf k)\<rparr>))) = 1
          \<and> cursor (SSS (sys_goto_sleep (k\<lparr>sys_evt_hold_cycle := hold_limit (dll_netconf k)\<rparr>))) = 0
          \<and> event_no (HSS (sys_goto_sleep (k\<lparr>sys_evt_hold_cycle := hold_limit (dll_netconf k)\<rparr>))) = 0
          \<and> event_no (SSS (task_hold d e k)) = 1
          \<and> event_no (HSS (task_hold d e k)) = 0
          \<and> rfa_event_no (sys_evt_RFA (task_hold d e k)) = 0
          \<and> calls (task_hold d e k) = calls k @ [Sig_prestart 1]
          \<and> session (task_hold d e k) =
              snd (session_new (sops e) 0
                     (if data_f (ISF_open_su (ISF_ID_sleep_scan_sequence d) k) 1 AND 0x80 \<noteq> 0
                      then M2_NETSTATE_REQRX d OR M2_NETSTATE_INIT d OR M2_NETFLAG_FLOOD d
                      else M2_NETSTATE_REQRX d OR M2_NETSTATE_INIT d)
                     (data_f (ISF_open_su (ISF_ID_sleep_scan_sequence d) k) 0)
                     (session k))
          \<and> dll_comm (task_hold d e k) =
              (dll_comm k)\<lparr>rx_timeout :=
                              otutils_calc_timeout e (data_f (ISF_open_su (ISF_ID_sleep_scan_sequence d) k) 1),
                            redundants := 0, rx_channels := 1, rx_chanlist := Scratch_ptr 1,
                            scratch := (scratch (dll_comm k))
                                         (1 := data_f (ISF_open_su (ISF_ID_sleep_scan_sequence d) k) 0)\<rparr>
          \<and> nextevent (SSS (task_hold d e k)) =
              ucast (vl_read True (ISF_open_su (ISF_ID_sleep_scan_sequence d) k) 2)
          \<and> cursor (SSS (task_hold d e k)) =
              (if 4 \<ge> unat (length_f (ISF_open_su (ISF_ID_sleep_scan_sequence d) k)) then 0 else 4))
   \<and> (fst (sub_clock_tasks d e elapsed (SYS_WATCHDOG_CHECK (call Platform_flush_gptim k0))) = TASK_hold
      \<longrightarrow> sys_event_manager_iter d e elapsed k0 =
            Inr (None, task_hold d e
                   (snd (sub_clock_tasks d e elapsed (SYS_WATCHDOG_CHECK (call Platform_flush_gptim k0))))))"
proof (intro conjI impI)
  show "sys_evt_hold_cycle (task_hold d e k) = sys_evt_hold_cycle k + (if cursor (HSS k) = 0 then 1 else 0)"
    by (simp add: task_hold_def Let_def sysevt_sleepscan_def sysevt_holdscan_def
          sub_scan_channel_frame sys_goto_sleep_effect)
next
  assume a: "active (dll_netconf k) AND M2_SET_CLASSMASK d = M2_SET_ENDPOINT d
        \<and> sys_evt_hold_cycle k + (if cursor (HSS k) = 0 then 1 else 0) = hold_limit (dll_netconf k)"
  let ?ks = "sys_goto_sleep (k\<lparr>sys_evt_hold_cycle := hold_limit (dll_netconf k)\<rparr>)"
  let ?fp = "ISF_open_su (ISF_ID_sleep_scan_sequence d) k"
  from a show th: "task_hold d e k = sysevt_sleepscan d e ?ks"
    by (simp add: task_hold_def Let_def)
  have c0: "cursor (sys_evt_idle ?ks 1) = 0" by (rule sys_goto_sleep_effect)
  have fp: "isf ?ks (ISF_ID_sleep_scan_sequence d) = ?fp"
    by (simp add: sys_goto_sleep_frame ISF_open_su_def)
  show "event_no (SSS (task_hold d e k)) = 1" "event_no (HSS (task_hold d e k)) = 0"
    by (simp_all add: th sysevt_sleepscan_def sub_scan_channel_frame sys_goto_sleep_event_no)
  show "rfa_event_no (sys_evt_RFA (task_hold d e k)) = 0"
    by (simp add: th sysevt_sleepscan_def sub_scan_channel_frame sys_goto_sleep_effect)
  show "calls (task_hold d e k) = calls k @ [Sig_prestart 1]"
    by (simp add: th sysevt_sleepscan_def sub_scan_channel_effect sys_goto_sleep_frame)
  show "session (task_hold d e k) =
              snd (session_new (sops e) 0
                     (if data_f ?fp 1 AND 0x80 \<noteq> 0
                      then M2_NETSTATE_REQRX d OR M2_NETSTATE_INIT d OR M2_NETFLAG_FLOOD d
                      else M2_NETSTATE_REQRX d OR M2_NETSTATE_INIT d)
                     (data_f ?fp 0) (session k))"
    unfolding th sysevt_sleepscan_def sub_scan_channel_effect c0 fp
    by (simp add: sys_goto_sleep_frame)
  show "dll_comm (task_hold d e k) =
              (dll_comm k)\<lparr>rx_timeout := otutils_calc_timeout e (data_f ?fp 1),
                            redundants := 0, rx_channels := 1, rx_chanlist := Scratch_ptr 1,
                            scratch := (scratch (dll_comm k))(1 := data_f ?fp 0)\<rparr>"
    unfolding th sysevt_sleepscan_def sub_scan_channel_effect c0 fp
    by (simp add: sys_goto_sleep_frame)
  show "nextevent (SSS (task_hold d e k)) = ucast (vl_read True ?fp 2)"
    unfolding th sysevt_sleepscan_def sub_scan_channel_effect c0 fp
    by simp
  show "cursor (SSS (task_hold d e k)) = (if 4 \<ge> unat (length_f ?fp) then 0 else 4)"
    unfolding th sysevt_sleepscan_def sub_scan_channel_effect c0 fp
    by simp
next
  assume "fst (sub_clock_tasks d e elapsed (SYS_WATCHDOG_CHECK (call Platform_flush_gptim k0))) = TASK_hold"
  then show "sys_event_manager_iter d e elapsed k0 =
            Inr (None, task_hold d e
                   (snd (sub_clock_tasks d e elapsed (SYS_WATCHDOG_CHECK (call Platform_flush_gptim k0)))))"
    by (simp add: sys_event_manager_iter_def Let_def case_prod_beta TASK_hold_def TASK_idle_def
          TASK_processing_def TASK_radio_def TASK_session_def)
qed (rule sys_goto_sleep_effect)+

lemma hold_example_facts:
  "active (dll_netconf hold_example) AND M2_SET_CLASSMASK defs_example = M2_SET_ENDPOINT defs_example"
  "sys_evt_hold_cycle hold_example + (if cursor (HSS hold_example) = 0 then 1 else 0)
     = hold_limit (dll_netconf hold_example)"
  "hold_limit (dll_netconf hold_example) = 3"
  by (simp_all add: hold_example_def kernel_example_def defs_example_def)

lemma hold_example_record:
  "data_f (ISF_open_su (ISF_ID_sleep_scan_sequence defs_example) hold_example) 0 = 0x10"
  "data_f (ISF_open_su (ISF_ID_sleep_scan_sequence defs_example) hold_example) 1 = 0x05"
  "vl_read True (ISF_open_su (ISF_ID_sleep_scan_sequence defs_example) hold_example) 2 = 200"
  "unat (length_f (ISF_open_su (ISF_ID_sleep_scan_sequence defs_example) hold_example)) = 8"
  "session hold_example = session kernel_example"
  "dll_comm hold_example = dll_comm kernel_example"
  "calls hold_example = []"
  by (simp_all add: hold_example_def kernel_example_def defs_example_def ISF_open_su_def
        sleep_scan_file_def vl_read_def)

text \<open>
  Claim C6 at an endpoint with \<open>hold_limit = 3\<close>, after two hold cycles and with the hold
  cursor at 0: the third dispatch moves to sleep and scans the first sleep-scan record
  (channel \<open>0x10\<close>, flags 5, next scan in 200 ticks).
\<close>

theorem C6_hold_to_sleep_witness:
  "active (dll_netconf hold_example) AND M2_SET_CLASSMASK defs_example = M2_SET_ENDPOINT defs_example
   \<and> sys_evt_hold_cycle hold_example = 2 \<and> cursor (HSS hold_example) = 0
   \<and> hold_limit (dll_netconf hold_example) = 3
   \<and> sys_evt_hold_cycle (task_hold defs_example extern_example hold_example) = 3
   \<and> event_no (SSS (task_hold defs_example extern_example hold_example)) = 1
   \<and> event_no (HSS (task_hold defs_example extern_example hold_example)) = 0
   \<and> cursor (SSS (task_hold defs_example extern_example hold_example)) = 4
   \<and> nextevent (SSS (task_hold defs_example extern_example hold_example)) = 200
   \<and> calls (task_hold defs_example extern_example hold_example) = [Sig_prestart 1]
   \<and> book (session (task_hold defs_example extern_example hold_example)) = [0]
   \<and> channel (heap (session (task_hold defs_example extern_example hold_example)) 0) = 0x10
   \<and> netstate (heap (session (task_hold defs_example extern_example hold_example)) 0) = 0x28
   \<and> counter (heap (session (task_hold defs_example extern_example hold_example)) 0) = 0
   \<and> rx_timeout (dll_comm (task_hold defs_example extern_example hold_example)) = 5
   \<and> redundants (dll_comm (task_hold defs_example extern_example hold_example)) = 0
   \<and> rx_channels (dll_comm (task_hold defs_example extern_example hold_example)) = 1
   \<and> rx_chanlist (dll_comm (task_hold defs_example extern_example hold_example)) = Scratch_ptr 1
   \<and> scratch (dll_comm (task_hold defs_example extern_example hold_example)) 1 = 0x10
   \<and> rfa_event_no (sys_evt_RFA (task_hold defs_example extern_example hold_example)) = 0"
proof -
  note T = C6_hold_to_sleep [of defs_example extern_example hold_example 0 hold_example]
  let ?k = "task_hold defs_example extern_example hold_example"
  let ?fp = "ISF_open_su (ISF_ID_sleep_scan_sequence defs_example) hold_example"
  have b: "sys_evt_hold_cycle hold_example = 2" "cursor (HSS hold_example) = 0"
    by (simp_all add: hold_example_def kernel_example_def)
  from T hold_example_facts(1,2)
  have A: "event_no (SSS ?k) = 1" "event_no (HSS ?k) = 0" "rfa_event_no (sys_evt_RFA ?k) = 0"
    by blast+
  from T have "sys_evt_hold_cycle ?k
                   = sys_evt_hold_cycle hold_example + (if cursor (HSS hold_example) = 0 then 1 else 0)"
    by blast
  then have B: "sys_evt_hold_cycle ?k = 3"
    by (simp only: b) simp
  from T hold_example_facts(1,2)
  have "calls ?k = calls hold_example @ [Sig_prestart 1]"
    by blast
  then have C: "calls ?k = [Sig_prestart 1]"
    by (simp add: hold_example_record)
  define S where "S = snd (session_new (sops extern_example) 0
                 (if data_f ?fp 1 AND 0x80 \<noteq> 0
                  then M2_NETSTATE_REQRX defs_example OR M2_NETSTATE_INIT defs_example
                         OR M2_NETFLAG_FLOOD defs_example
                  else M2_NETSTATE_REQRX defs_example OR M2_NETSTATE_INIT defs_example)
                 (data_f ?fp 0) (session hold_example))"
  have S: "book S = [0]" "channel (heap S 0) = 0x10" "netstate (heap S 0) = 0x28"
      "counter (heap S 0) = 0"
    unfolding S_def hold_example_record
    by (simp_all add: extern_example_def sops_example_def kernel_example_def defs_example_def)
  from T hold_example_facts(1,2) have "session ?k = S"
    unfolding S_def by blast
  with S have D: "book (session ?k) = [0]" "channel (heap (session ?k) 0) = 0x10"
      "netstate (heap (session ?k) 0) = 0x28" "counter (heap (session ?k) 0) = 0"
    by (simp_all only:)
  define L where "L = (dll_comm hold_example)\<lparr>rx_timeout := otutils_calc_timeout extern_example (data_f ?fp 1),
             redundants := 0, rx_channels := 1, rx_chanlist := Scratch_ptr 1,
             scratch := (scratch (dll_comm hold_example))(1 := data_f ?fp 0)\<rparr>"
  have L: "rx_timeout L = 5" "redundants L = 0" "rx_channels L = 1"
      "rx_chanlist L = Scratch_ptr 1" "scratch L 1 = 0x10"
    unfolding L_def hold_example_record
    by (simp_all add: extern_example_def)
  from T hold_example_facts(1,2) have "dll_comm ?k = L"
    unfolding L_def by blast
  with L have E: "rx_timeout (dll_comm ?k) = 5" "redundants (dll_comm ?k) = 0"
      "rx_channels (dll_comm ?k) = 1" "rx_chanlist (dll_comm ?k) = Scratch_ptr 1"
      "scratch (dll_comm ?k) 1 = 0x10"
    by (simp_all only:)
  from T hold_example_facts(1,2)
  have "nextevent (SSS ?k) = ucast (vl_read True ?fp 2)"
      "cursor (SSS ?k) = (if 4 \<ge> unat (length_f ?fp) then 0 else 4)"
    by blast+
  then have F: "nextevent (SSS ?k) = 200" "cursor (SSS ?k) = 4"
    by (simp_all only: hold_example_record) simp_all
  from A B C D E F b hold_example_facts(1,3) show ?thesis
    by blast
qed

subsection \<open>Loading the network configuration\<close>

lemma sys_idle_netconf [simp]:
  "dll_netconf (sys_idle e k) = dll_netconf k"
  by (simp add: sys_idle_def Let_def sys_goto_off_def sys_goto_sleep_def sys_goto_hold_def)

lemma sys_refresh_hold_limit:
  "hold_limit (dll_netconf (sys_refresh d e k)) = vl_read (BIG_ENDIAN d) (ISF_open_su 0x00 k) 8"
  by (simp add: sys_refresh_def sub_sys_flush_def Let_def)

lemma concat_be_bytes:
  fixes v :: "16 word"
  shows "push_bit 8 (ucast (ucast (drop_bit 8 v) :: 8 word)) OR ucast (ucast v :: 8 word) = v"
  by (rule bit_word_eqI) (auto simp add: bit_simps)

lemma vl_read_be_written:
  assumes "be_written fp offset v"
  shows "vl_read True fp offset = v" and "vl_read False fp offset = swap16 v"
proof -
  show "vl_read True fp offset = v"
    using assms by (simp add: vl_read_def be_written_def be_bytes_def concat_be_bytes)
  show "vl_read False fp offset = swap16 v"
    using assms unfolding vl_read_def be_written_def be_bytes_def swap16_def
    by simp (rule bit_word_eqI, auto simp add: bit_simps dest: bit_imp_le_length)
qed

lemma sys_refresh_hold_limit_host:
  assumes "be_written (ISF_open_su 0x00 k) 8 v"
  shows "hold_limit (dll_netconf (sys_refresh d e k)) = (if BIG_ENDIAN d then v else swap16 v)"
  using vl_read_be_written [OF assms] by (simp add: sys_refresh_hold_limit)

text \<open>
  Claim C7 fails on a little-endian host. ISF 0 holds \<open>hold_limit = 3\<close> as a big-endian
  writer stores it (bytes \<open>00 03\<close> at offset 8); after \<open>sys_refresh\<close>,
  \<open>dll.netconf.hold_limit\<close> is \<open>0x0300\<close>: the two bytes are taken in host order, without
  the conversion the scan and beacon sequences apply to their big-endian fields.
\<close>

theorem C7_hold_limit_little_endian:
  "be_written (ISF_open_su 0x00 refresh_example) 8 3
   \<and> \<not> BIG_ENDIAN defs_example
   \<and> hold_limit (dll_netconf (sys_refresh defs_example extern_example refresh_example)) = 0x0300"
  by (simp add: sys_refresh_hold_limit vl_read_def ISF_open_su_def refresh_example_def
        kernel_example_def defs_example_def netconf_file_def be_written_def be_bytes_def)


subsection \<open>Panic\<close>

lemmas sys_panic_defs =
  sys_panic_def sys_idle_def sys_goto_off_def Let_def call_def idle_update_def radio_calls_def

text \<open>
  Claim C8, as the code has it. For every error code, \<open>sys_panic(code)\<close> flushes the
  session stack (\<open>session_flush\<close>, then \<open>session_init\<close> on the way to the off state),
  forces the system to idle (idle state off, mutex 0, \<open>RFA\<close>, \<open>HSS\<close>, \<open>SSS\<close> and \<open>BTS\<close>
  disabled) and invokes the panic hook with the code; through \<open>sys_idle\<close> it gags the radio
  and puts it to sleep, and these are its only radio operations. The comm block, the
  network configuration and the two queues are unchanged.
\<close>

theorem C8_panic_effect:
  "session (sys_panic e err_code k) = session_init (sops e) (session_flush (sops e) (session k))
   \<and> dll_idle_state (sys_panic e err_code k) = 0
   \<and> sys_mutex (sys_panic e err_code k) = 0
   \<and> rfa_event_no (sys_evt_RFA (sys_panic e err_code k)) = 0
   \<and> event_no (HSS (sys_panic e err_code k)) = 0
   \<and> event_no (SSS (sys_panic e err_code k)) = 0
   \<and> event_no (BTS (sys_panic e err_code k)) = 0
   \<and> calls (sys_panic e err_code k)
        = calls k @ [Radio_gag, Radio_sleep, Platform_flush_gptim, Sig_panic err_code]
   \<and> radio_calls (sys_panic e err_code k) = radio_calls k @ [Radio_gag, Radio_sleep]
   \<and> dll_comm (sys_panic e err_code k) = dll_comm k
   \<and> dll_netconf (sys_panic e err_code k) = dll_netconf k
   \<and> rxq (sys_panic e err_code k) = rxq k
   \<and> txq (sys_panic e err_code k) = txq k"
  by (simp add: sys_panic_defs)

text \<open>Claim C8 from the state at rest, with error code 64.\<close>

theorem C8_panic_effect_witness:
  "calls (sys_panic extern_example 64 kernel_example)
     = [Radio_gag, Radio_sleep, Platform_flush_gptim, Sig_panic 64]
   \<and> book (session (sys_panic extern_example 64 kernel_example)) = []"
  using C8_panic_effect [of extern_example 64 kernel_example]
  by (simp add: kernel_example_def extern_example_def sops_example_def)

text \<open>
  Claim C8, as it is stated, fails: \<open>sys_panic\<close> does operate the radio. From a state with
  no radio call made, the radio calls after \<open>sys_panic(64)\<close> are \<open>radio_gag\<close> and
  \<open>radio_sleep\<close>.
\<close>

theorem C8_panic_radio_counterexample:
  "radio_calls kernel_example = []
   \<and> radio_calls (sys_panic extern_example 64 kernel_example) = [Radio_gag, Radio_sleep]
   \<and> radio_calls (sys_panic extern_example 64 kernel_example) \<noteq> radio_calls kernel_example"
  by (simp add: sys_panic_defs kernel_example_def)

subsection \<open>Starting a dialog or a flood\<close>

text \<open>
  Claim C9. \<open>otapi_start_flood\<close> called with \<open>flood_duration = 0\<close> is
  \<open>otapi_start_dialog\<close>: it returns, whatever the bound on the event manager, with the
  result and the state of \<open>otapi_start_dialog\<close>. That result is 1; the mutex is cleared,
  the radio is killed when the mutex was set, the kernel is pre-empted; the session stack
  and the comm block are unchanged.
\<close>

theorem C9_start_flood_zero:
  "otapi_start_flood n d e 0 k = Some (Inr (otapi_start_dialog k))
   \<and> fst (otapi_start_dialog k) = 1
   \<and> sys_mutex (snd (otapi_start_dialog k)) = 0
   \<and> calls (snd (otapi_start_dialog k))
        = calls k @ (if sys_mutex k \<noteq> 0 then [Rm2_kill] else []) @ [Platform_ot_preempt]
   \<and> session (snd (otapi_start_dialog k)) = session k
   \<and> dll_comm (snd (otapi_start_dialog k)) = dll_comm k"
  by (simp add: otapi_start_flood_def otapi_start_dialog_def Let_def call_def)

text \<open>Claim C9 during a foreground scan, where the mutex is set.\<close>

theorem C9_start_flood_zero_witness:
  "otapi_start_flood 0 defs_example extern_example 0 fscan_example
     = Some (Inr (1, fscan_example\<lparr>sys_mutex := 0, calls := [Rm2_kill, Platform_ot_preempt]\<rparr>))"
  using C9_start_flood_zero [of 0 defs_example extern_example fscan_example]
  by (simp add: otapi_start_dialog_def call_def fscan_example_def kernel_example_def)

subsection \<open>The beacon event\<close>

text \<open>
  Claim C10. When \<open>dll.netconf.b_attempts\<close> is 0 or the beacon transmit sequence has
  length 0, \<open>sysevt_beacon\<close> sets \<open>BTS.nextevent\<close> to 65535 and does nothing else: no
  session is created, the TX queue is not written, \<open>BTS.cursor\<close> is unchanged and no
  outside call is made.
\<close>

theorem C10_beacon_disabled:
  assumes "b_attempts (dll_netconf k) = 0
           \<or> length_f (ISF_open_su (ISF_ID_beacon_transmit_sequence d) k) = 0"
  shows "sysevt_beacon d e k = Inr (idle_update 2 (nextevent_update (\<lambda>_. 65535)) k)
       \<and> nextevent (BTS (idle_update 2 (nextevent_update (\<lambda>_. 65535)) k)) = 65535
       \<and> cursor (BTS (idle_update 2 (nextevent_update (\<lambda>_. 65535)) k)) = cursor (BTS k)
       \<and> session (idle_update 2 (nextevent_update (\<lambda>_. 65535)) k) = session k
       \<and> txq (idle_update 2 (nextevent_update (\<lambda>_. 65535)) k) = txq k
       \<and> calls (idle_update 2 (nextevent_update (\<lambda>_. 65535)) k) = calls k"
  using assms by (auto simp add: sysevt_beacon_def Let_def)

text \<open>Claim C10 from the state at rest, where beacons are disabled.\<close>

theorem C10_beacon_disabled_witness:
  "b_attempts (dll_netconf kernel_example) = 0
   \<and> sysevt_beacon defs_example extern_example kernel_example
       = Inr (idle_update 2 (nextevent_update (\<lambda>_. 65535)) kernel_example)"
proof -
  have h: "b_attempts (dll_netconf kernel_example) = 0"
    by (simp add: kernel_example_def)
  then have "b_attempts (dll_netconf kernel_example) = 0
           \<or> length_f (ISF_open_su (ISF_ID_beacon_transmit_sequence defs_example) kernel_example) = 0"
    by simp
  from C10_beacon_disabled [OF this, of extern_example] h show ?thesis by blast
qed


end
